theory Spec2Isabelle
  imports Main "HOL-Library.Word" "HOL-Library.Monad_Syntax"
begin

section \<open>Basic types of the Go sources\<close>

type_synonym uint8 = "8 word"
type_synonym uint16 = "16 word"
type_synonym uint32 = "32 word"
type_synonym int32 = "32 word"

text \<open>
  \<^verbatim>\<open>time.Duration\<close> is an \<^verbatim>\<open>int64\<close> count of nanoseconds. It is kept as a 64-bit
  word; the comparisons of the source are signed and read the word with \<^const>\<open>sint\<close>.
\<close>

type_synonym Duration = "64 word"

definition Millisecond :: Duration where
  "Millisecond = 1000000"

definition Second :: Duration where
  "Second = 1000000000"

definition MaxInt64 :: Duration where
  "MaxInt64 = 9223372036854775807"

text \<open>
  A Go \<^verbatim>\<open>error\<close> value: the one \<^verbatim>\<open>config.go\<close> builds with \<^verbatim>\<open>errors.New\<close>, and the
  errors the resolvers of package \<^verbatim>\<open>net\<close> hand back, kept by their message.
\<close>

datatype go_error = ErrorsNew string | ResolveError string

subsection \<open>Decimal printing (\<^verbatim>\<open>strconv.Itoa\<close>, \<^verbatim>\<open>strconv.FormatUint(_, 10)\<close>)\<close>

definition digit_char :: "nat \<Rightarrow> char" where
  "digit_char d = char_of (48 + d)"

fun decimal :: "nat \<Rightarrow> string" where
  "decimal n = (if n < 10 then [digit_char n] else decimal (n div 10) @ [digit_char (n mod 10)])"

declare decimal.simps [simp del]

definition Itoa :: "int \<Rightarrow> string" where
  "Itoa i = (if i < 0 then CHR ''-'' # decimal (nat (- i)) else decimal (nat i))"

definition FormatUint10 :: "nat \<Rightarrow> string" where
  "FormatUint10 n = decimal n"

section \<open>\<^verbatim>\<open>config.go\<close>: the peer configuration\<close>

subsection \<open>Addresses\<close>

text \<open>
  What \<^verbatim>\<open>net.ResolveTCPAddr\<close> and \<^verbatim>\<open>net.ResolveUDPAddr\<close> return on success: an IP (kept
  in the textual form \<^verbatim>\<open>IP.String()\<close> prints), a port and an IPv6 zone.
\<close>

record ip_addr =
  IP :: string
  Port :: int
  Zone :: string

text \<open>\<^verbatim>\<open>net.JoinHostPort\<close>: a host with a colon is taken for an IPv6 literal and bracketed.\<close>

definition JoinHostPort :: "string \<Rightarrow> string \<Rightarrow> string" where
  "JoinHostPort h p = (if CHR '':'' \<in> set h then ''['' @ h @ '']:'' @ p else h @ '':'' @ p)"

text \<open>
  \<^verbatim>\<open>net.ipEmptyString\<close>: the empty string for an IP of length 0, which \<^verbatim>\<open>IP.String()\<close> prints
  as \<^verbatim>\<open><nil>\<close>, and what \<^verbatim>\<open>IP.String()\<close> prints otherwise.
\<close>

definition ipEmptyString :: "string \<Rightarrow> string" where
  "ipEmptyString ip = (if ip = ''<nil>'' then '''' else ip)"

text \<open>\<^verbatim>\<open>(*net.UDPAddr).String()\<close> on a non-nil address.\<close>

definition UDPAddr_String :: "ip_addr \<Rightarrow> string" where
  "UDPAddr_String a =
     (if Zone a \<noteq> '''' then JoinHostPort (ipEmptyString (IP a) @ ''%'' @ Zone a) (Itoa (Port a))
      else JoinHostPort (ipEmptyString (IP a)) (Itoa (Port a)))"

text \<open>The struct \<^verbatim>\<open>FakeAddr\<close>, with the fields \<^verbatim>\<open>newAddr\<close> fills in.\<close>

record FakeAddr =
  network :: string
  addr :: string
  host :: string
  port :: string
  udpAddr :: "ip_addr option"

text \<open>
  A non-nil \<^verbatim>\<open>net.Addr\<close> interface value: the dynamic type and the pointer it wraps. The
  pointer of a \<^verbatim>\<open>*net.TCPAddr\<close> or \<^verbatim>\<open>*net.UnixAddr\<close> may itself be nil (\<open>None\<close>): that is
  what \<^verbatim>\<open>return net.ResolveTCPAddr(...)\<close> yields when the resolver fails. The nil interface
  is \<open>None :: net_addr option\<close>.
\<close>

datatype net_addr =
    TCPAddr "ip_addr option"
  | UnixAddr "(string \<times> string) option"
  | FakeAddrPtr FakeAddr

text \<open>
  What \<^verbatim>\<open>config.go\<close> calls but does not define. The TCP and UDP resolvers of package
  \<^verbatim>\<open>net\<close> consult the host's name service, \<^verbatim>\<open>NewFakeAddr\<close> lives in another file of the
  package, and \<^verbatim>\<open>DefaultBodyCodec().Name()\<close> reads the package-level variable
  \<^verbatim>\<open>defaultBodyCodec\<close>: all four are parameters of the model. A resolver returns either
  an error or an address, never both and never neither.
\<close>

record net_env =
  ResolveTCPAddr :: "string \<Rightarrow> string \<Rightarrow> go_error + ip_addr"
  ResolveUDPAddr :: "string \<Rightarrow> string \<Rightarrow> go_error + ip_addr"
  NewFakeAddr :: "string \<Rightarrow> string \<Rightarrow> string \<Rightarrow> FakeAddr"
  DefaultBodyCodecName :: string

text \<open>
  \<^verbatim>\<open>net.ResolveUnixAddr\<close> does no lookup: it wraps the address for the three unix networks
  and fails for any other (the error is \<^verbatim>\<open>UnknownNetworkError(network)\<close>).
\<close>

definition ResolveUnixAddr :: "string \<Rightarrow> string \<Rightarrow> go_error + (string \<times> string)" where
  "ResolveUnixAddr net address =
     (if net = ''unix'' \<or> net = ''unixgram'' \<or> net = ''unixpacket''
      then Inr (address, net)
      else Inl (ResolveError (''unknown network '' @ net)))"

subsection \<open>The struct \<^verbatim>\<open>PeerConfig\<close>\<close>

record PeerConfig =
  Network :: string
  LocalIP :: string
  LocalPort :: uint16
  ListenPort :: uint16
  DialTimeout :: Duration
  RedialTimes :: int32
  RedialInterval :: Duration
  DefaultBodyCodec :: string
  DefaultSessionAge :: Duration
  DefaultContextAge :: Duration
  SlowCometDuration :: Duration
  PrintDetail :: bool
  CountTime :: bool
  localAddr :: "net_addr option"
  listenAddr :: "net_addr option"
  slowCometDuration :: Duration
  checked :: bool

text \<open>The zero value of the struct, which a composite literal starts from.\<close>

definition zeroPeerConfig :: PeerConfig where
  "zeroPeerConfig = \<lparr> Network = '''', LocalIP = '''', LocalPort = 0, ListenPort = 0,
     DialTimeout = 0, RedialTimes = 0, RedialInterval = 0, DefaultBodyCodec = '''',
     DefaultSessionAge = 0, DefaultContextAge = 0, SlowCometDuration = 0,
     PrintDetail = False, CountTime = False, localAddr = None, listenAddr = None,
     slowCometDuration = 0, checked = False \<rparr>"

subsection \<open>\<^verbatim>\<open>newAddr\<close>\<close>

definition invalid_network_msg :: string where
  "invalid_network_msg =
     ''Invalid network config, refer to the following: tcp, tcp4, tcp6, unix, unixpacket, kcp or quic''"

text \<open>
  The result is the pair \<^verbatim>\<open>(net.Addr, error)\<close> the Go function returns. The \<^verbatim>\<open>switch\<close> is
  on \<^verbatim>\<open>p.Network\<close>; its \<^verbatim>\<open>default\<close> branch is taken when no \<^verbatim>\<open>case\<close> matches.
\<close>

definition newAddr :: "net_env \<Rightarrow> PeerConfig \<Rightarrow> string \<Rightarrow> net_addr option \<times> go_error option" where
  "newAddr env p prt =
     (if Network p = ''tcp'' \<or> Network p = ''tcp4'' \<or> Network p = ''tcp6'' then
        (case ResolveTCPAddr env (Network p) (JoinHostPort (LocalIP p) prt) of
           Inl e \<Rightarrow> (Some (TCPAddr None), Some e)
         | Inr a \<Rightarrow> (Some (TCPAddr (Some a)), None))
      else if Network p = ''unix'' \<or> Network p = ''unixpacket'' then
        (case ResolveUnixAddr (Network p) (JoinHostPort (LocalIP p) prt) of
           Inl e \<Rightarrow> (Some (UnixAddr None), Some e)
         | Inr a \<Rightarrow> (Some (UnixAddr (Some a)), None))
      else if Network p = ''kcp'' \<or> Network p = ''udp'' \<or> Network p = ''udp4''
              \<or> Network p = ''udp6'' \<or> Network p = ''quic'' then
        (case ResolveUDPAddr env ''udp'' (JoinHostPort (LocalIP p) prt) of
           Inl e \<Rightarrow> (None, Some e)
         | Inr a \<Rightarrow>
             (Some (FakeAddrPtr \<lparr> network = (if Network p = ''quic'' then ''quic'' else ''kcp''),
                                  addr = UDPAddr_String a,
                                  host = LocalIP p,
                                  port = Itoa (Port a),
                                  udpAddr = Some a \<rparr>), None))
      else (None, Some (ErrorsNew invalid_network_msg)))"

definition asQUIC :: "string \<Rightarrow> string" where
  "asQUIC net = (if net = ''quic'' then ''udp'' else '''')"

definition asKCP :: "string \<Rightarrow> string" where
  "asKCP net =
     (if net = ''kcp'' then ''udp''
      else if net = ''udp'' \<or> net = ''udp4'' \<or> net = ''udp6'' then net
      else '''')"

subsection \<open>\<^verbatim>\<open>check\<close>, \<^verbatim>\<open>ListenAddr\<close>, \<^verbatim>\<open>LocalAddr\<close>, \<^verbatim>\<open>Reload\<close>\<close>

text \<open>
  The methods have a pointer receiver and mutate the struct: the model returns the
  returned value together with the struct as the call leaves it. The statements of
  \<^verbatim>\<open>check\<close> are kept in the order of the source; \<open>p1\<close> to \<open>p7\<close> are the struct after
  each of them.
\<close>

definition check :: "net_env \<Rightarrow> PeerConfig \<Rightarrow> go_error option \<times> PeerConfig" where
  "check env p =
     (if checked p then (None, p)
      else
        let p1 = p\<lparr>checked := True\<rparr>;
            p2 = (if Network p1 = '''' then p1\<lparr>Network := ''tcp''\<rparr> else p1);
            p3 = (if LocalIP p2 = '''' then p2\<lparr>LocalIP := ''0.0.0.0''\<rparr> else p2);
            r = newAddr env p3 (Itoa (uint (LocalPort p3)));
            p4 = p3\<lparr>localAddr := fst r\<rparr>
        in case snd r of
             Some err \<Rightarrow> (Some err, p4)
           | None \<Rightarrow>
               let listenPort = FormatUint10 (unat (ListenPort p4));
                   p5 = p4\<lparr>listenAddr :=
                          Some (FakeAddrPtr (NewFakeAddr env (Network p4) (LocalIP p4) listenPort))\<rparr>;
                   p6 = p5\<lparr>slowCometDuration := MaxInt64\<rparr>;
                   p7 = (if 0 < sint (SlowCometDuration p6)
                         then p6\<lparr>slowCometDuration := SlowCometDuration p6\<rparr> else p6);
                   p8 = (if length (DefaultBodyCodec p7) = 0
                         then p7\<lparr>DefaultBodyCodec := DefaultBodyCodecName env\<rparr> else p7);
                   p9 = (if sint (RedialInterval p8) \<le> 0
                         then p8\<lparr>RedialInterval := Millisecond * 100\<rparr> else p8)
               in (None, p9))"

definition ListenAddr :: "net_env \<Rightarrow> PeerConfig \<Rightarrow> net_addr option \<times> PeerConfig" where
  "ListenAddr env p = (let p' = snd (check env p) in (listenAddr p', p'))"

definition LocalAddr :: "net_env \<Rightarrow> PeerConfig \<Rightarrow> net_addr option \<times> PeerConfig" where
  "LocalAddr env p = (let p' = snd (check env p) in (localAddr p', p'))"

text \<open>
  \<^verbatim>\<open>Reload\<close> takes a \<^verbatim>\<open>cfgo.BindFunc\<close>, a closure that synchronises the struct with a file
  and may fail: here a function from the struct to an error and the struct it leaves.
\<close>

definition Reload ::
  "net_env \<Rightarrow> (PeerConfig \<Rightarrow> go_error option \<times> PeerConfig) \<Rightarrow> PeerConfig
     \<Rightarrow> go_error option \<times> PeerConfig" where
  "Reload env bindf p =
     (case bindf p of
        (Some err, p') \<Rightarrow> (Some err, p')
      | (None, p') \<Rightarrow> check env (p'\<lparr>checked := False\<rparr>))"

subsection \<open>Concrete inputs for the examples\<close>

text \<open>
  An environment for the closed examples below. Its resolvers answer as Go's do on the
  two addresses the examples use: the wildcard address \<^verbatim>\<open>0.0.0.0:0\<close> resolves to itself,
  and a name under the reserved top-level domain \<^verbatim>\<open>.invalid\<close> (as every other address
  here) does not resolve.
\<close>

definition example_env :: net_env where
  "example_env = \<lparr>
     ResolveTCPAddr = (\<lambda>net a. if a = ''0.0.0.0:0''
                                then Inr \<lparr>IP = ''0.0.0.0'', Port = 0, Zone = ''''\<rparr>
                                else Inl (ResolveError (''lookup failed: '' @ a))),
     ResolveUDPAddr = (\<lambda>net a. if a = ''0.0.0.0:0''
                                then Inr \<lparr>IP = ''0.0.0.0'', Port = 0, Zone = ''''\<rparr>
                                else Inl (ResolveError (''lookup failed: '' @ a))),
     NewFakeAddr = (\<lambda>n h p. \<lparr>network = n, addr = JoinHostPort h p, host = h, port = p,
                                udpAddr = None\<rparr>),
     DefaultBodyCodecName = ''json'' \<rparr>"

text \<open>The networks the struct tag and the error message of \<^verbatim>\<open>newAddr\<close> list.\<close>

definition documented_networks :: "string set" where
  "documented_networks = {''tcp'', ''tcp4'', ''tcp6'', ''unix'', ''unixpacket'', ''kcp'', ''quic''}"

text \<open>The networks the \<^verbatim>\<open>switch\<close> of \<^verbatim>\<open>newAddr\<close> has a \<^verbatim>\<open>case\<close> for.\<close>

definition accepted_networks :: "string set" where
  "accepted_networks = {''tcp'', ''tcp4'', ''tcp6'', ''unix'', ''unixpacket'',
                        ''kcp'', ''udp'', ''udp4'', ''udp6'', ''quic''}"

text \<open>
  What \<^verbatim>\<open>check\<close> hands to \<^verbatim>\<open>newAddr\<close> when it runs: the network after lines 83 to 85
  (\<^verbatim>\<open>tcp\<close> for the empty network), the local IP after lines 86 to 88 (\<^verbatim>\<open>0.0.0.0\<close> for the
  empty IP), and the local port printed in decimal (line 89).
\<close>

definition network_in_check :: "PeerConfig \<Rightarrow> string" where
  "network_in_check p = (if Network p = '''' then ''tcp'' else Network p)"

definition ip_in_check :: "PeerConfig \<Rightarrow> string" where
  "ip_in_check p = (if LocalIP p = '''' then ''0.0.0.0'' else LocalIP p)"

definition port_in_check :: "PeerConfig \<Rightarrow> string" where
  "port_in_check p = Itoa (uint (LocalPort p))"

text \<open>An interface value that holds an address: not nil, and not a nil pointer.\<close>

definition holds_address :: "net_addr option \<Rightarrow> bool" where
  "holds_address a = (a \<noteq> None \<and> a \<noteq> Some (TCPAddr None) \<and> a \<noteq> Some (UnixAddr None))"

section \<open>The handler \<^verbatim>\<open>Home.Test\<close> of the thrift protocol test\<close>

text \<open>
  Modelled from the spec: the status triple (code, message, cause) of section 3, with an
  \<^verbatim>\<open>int32\<close> code (the type \<^verbatim>\<open>erpc.Status\<close> is missing). A nil \<^verbatim>\<open>*erpc.Status\<close>, the ok
  status, is \<open>None :: Status option\<close>.
\<close>

record Status =
  Code :: int32
  Msg :: string
  Cause :: string

text \<open>
  The thrift struct \<^verbatim>\<open>Test\<close> the handler receives and returns, with the one field the
  handler and the test read and write.
\<close>

record Test =
  Author :: string

text \<open>
  The handler reads its context through \<^verbatim>\<open>PeekMeta\<close> only. The method belongs to the
  embedded \<^verbatim>\<open>erpc.CallCtx\<close>, which the test file does not define: the context is the
  function from a key to the bytes \<^verbatim>\<open>PeekMeta\<close> answers for it.
\<close>

record CallCtx =
  PeekMeta :: "string \<Rightarrow> string"

text \<open>A Go call either returns its results or panics with a value.\<close>

datatype 'a go_result = Returns 'a | Panics string

definition Home_Test :: "CallCtx \<Rightarrow> Test \<Rightarrow> (Test \<times> Status option) go_result" where
  "Home_Test h arg =
     (if PeekMeta h ''peer_id'' \<noteq> ''110'' then Panics ''except meta: peer_id=110''
      else Returns (\<lparr>Author = Author arg @ ''->OK''\<rparr>, None))"

text \<open>The context of scenario S1: the only meta entry is \<^verbatim>\<open>peer_id=110\<close>.\<close>

definition S1_ctx :: CallCtx where
  "S1_ctx = \<lparr>PeekMeta = (\<lambda>k. case map_of [(''peer_id'', ''110'')] k of
                                 Some v \<Rightarrow> v | None \<Rightarrow> '''')\<rparr>"

section \<open>The transfer pipe, the codec registry and the RAW protocol\<close>

text \<open>
  The packages that implement the message, the transfer pipe, the codec registry and the
  protocol are not among the sources; \<^verbatim>\<open>config.go\<close> refers to them (\<^verbatim>\<open>codec.Get\<close>,
  \<^verbatim>\<open>socket.DefaultProtoFunc\<close>, \<^verbatim>\<open>socket.MessageSizeLimit\<close>) and the tests call them. The
  definitions of this section and the next follow sections 3, 4 and 7 of the
  specification.
\<close>

subsection \<open>Error kinds\<close>

text \<open>
  Modelled from the spec: the error kinds of section 7 (the status package is missing).
  The kind OK is the absence of an error.
\<close>

datatype error_kind =
    NOT_FOUND | HANDLER_ERROR | DECODE_ERROR | ENCODE_ERROR | TRANSFER_PIPE_ERROR
  | TIMEOUT | TRANSPORT_ERROR | PROTOCOL_ERROR | INTERNAL

subsection \<open>Transfer pipe\<close>

text \<open>
  Modelled from the spec: a transfer filter of section 4.2 (package \<^verbatim>\<open>xfer\<close> is missing), a
  triple of a name, an encoding and a decoding of byte blocks. The reversal of a filter
  can fail (the kind TRANSFER\_PIPE\_ERROR covers "reversal failed").
\<close>

record xfer_filter =
  filter_name :: string
  filter_encode :: "string \<Rightarrow> string"
  filter_decode :: "string \<Rightarrow> string option"

text \<open>
  Modelled from the spec: the filter registry of section 4.2 (missing), a map from 1-byte
  IDs to filters; an ID may be left unassigned.
\<close>

type_synonym xfer_registry = "uint8 \<Rightarrow> xfer_filter option"

text \<open>
  Modelled from the spec: section 1 calls the filters reversible byte transforms. A filter
  is reversible when its decoding undoes its encoding on every block.
\<close>

definition reversible :: "xfer_filter \<Rightarrow> bool" where
  "reversible f = (\<forall>b. filter_decode f (filter_encode f b) = Some b)"

text \<open>Modelled from the spec: a registry all of whose filters are reversible (section 1).\<close>

definition registry_ok :: "xfer_registry \<Rightarrow> bool" where
  "registry_ok reg = (\<forall>i f. reg i = Some f \<longrightarrow> reversible f)"

text \<open>Modelled from the spec: every filter ID of a pipe is registered (section 8, item 2).\<close>

definition all_registered :: "(uint8 \<Rightarrow> 'a option) \<Rightarrow> uint8 list \<Rightarrow> bool" where
  "all_registered reg ids = list_all (\<lambda>i. reg i \<noteq> None) ids"

text \<open>
  Modelled from the spec: "senders apply filters in order before emit" (section 3; the
  pipe of package \<^verbatim>\<open>xfer\<close> is missing). A missing filter is a TRANSFER\_PIPE\_ERROR.
\<close>

fun pipe_apply :: "xfer_registry \<Rightarrow> uint8 list \<Rightarrow> string \<Rightarrow> error_kind + string" where
  "pipe_apply reg [] b = Inr b"
| "pipe_apply reg (i # ids) b =
     (case reg i of
        None \<Rightarrow> Inl TRANSFER_PIPE_ERROR
      | Some f \<Rightarrow> pipe_apply reg ids (filter_encode f b))"

text \<open>
  Modelled from the spec: the reversal of the filters of a list, from its head on (the
  pipe of package \<^verbatim>\<open>xfer\<close> is missing). A missing filter and a failed reversal are
  TRANSFER\_PIPE\_ERRORs.
\<close>

fun undo_filters :: "xfer_registry \<Rightarrow> uint8 list \<Rightarrow> string \<Rightarrow> error_kind + string" where
  "undo_filters reg [] b = Inr b"
| "undo_filters reg (i # ids) b =
     (case reg i of
        None \<Rightarrow> Inl TRANSFER_PIPE_ERROR
      | Some f \<Rightarrow>
          (case filter_decode f b of
             None \<Rightarrow> Inl TRANSFER_PIPE_ERROR
           | Some b' \<Rightarrow> undo_filters reg ids b'))"

text \<open>
  Modelled from the spec: "receivers reverse in opposite order" (section 3), "for each
  filter ID in reverse, reverse the transform" (section 4.1); the pipe is missing.
\<close>

definition pipe_reverse :: "xfer_registry \<Rightarrow> uint8 list \<Rightarrow> string \<Rightarrow> error_kind + string" where
  "pipe_reverse reg ids b = undo_filters reg (rev ids) b"

subsection \<open>Codec registry\<close>

text \<open>
  Modelled from the spec: a body codec of section 4.3 (package \<^verbatim>\<open>codec\<close> is missing), a
  triple of a name, a marshal and an unmarshal function between body values and bytes.
  Unmarshalling can fail (DECODE\_ERROR).
\<close>

record 'v codec =
  codec_name :: string
  marshal :: "'v \<Rightarrow> string"
  unmarshal :: "string \<Rightarrow> 'v option"

text \<open>Modelled from the spec: the codec registry of section 4.3 (missing), by 1-byte ID.\<close>

type_synonym 'v codec_registry = "uint8 \<Rightarrow> 'v codec option"

text \<open>
  Modelled from the spec: the contract of a codec (concrete codecs are out of the spec's
  scope): unmarshalling what the codec marshalled gives the value back.
\<close>

definition codec_ok :: "'v codec \<Rightarrow> bool" where
  "codec_ok c = (\<forall>v. unmarshal c (marshal c v) = Some v)"

text \<open>Modelled from the spec: a registry all of whose codecs keep the contract.\<close>

definition codecs_ok :: "'v codec_registry \<Rightarrow> bool" where
  "codecs_ok cs = (\<forall>i c. cs i = Some c \<longrightarrow> codec_ok c)"

subsection \<open>The message\<close>

text \<open>Modelled from the spec: the message types of section 3, CALL=1, REPLY=2, PUSH=3.\<close>

datatype msg_type = CALL | REPLY | PUSH

text \<open>Modelled from the spec: the wire value of a message type (section 3).\<close>

fun mtype_byte :: "msg_type \<Rightarrow> uint8" where
  "mtype_byte CALL = 1"
| "mtype_byte REPLY = 2"
| "mtype_byte PUSH = 3"

text \<open>Modelled from the spec: the message type of a wire value; other values are malformed.\<close>

definition byte_mtype :: "uint8 \<Rightarrow> msg_type option" where
  "byte_mtype b = (if b = 1 then Some CALL else if b = 2 then Some REPLY
                   else if b = 3 then Some PUSH else None)"

text \<open>
  Modelled from the spec: the message of section 3 (the message package is missing). The
  type parameter is the type of the body: a body value in memory, the byte block on the
  wire. The size is not a field: it is the length of the serialized message.
\<close>

record 'b message =
  seq :: uint32
  mtype :: msg_type
  service_method :: string
  status :: "Status option"
  meta :: "(string \<times> string) list"
  body_codec :: uint8
  xfer_pipe :: "uint8 list"
  body :: 'b

text \<open>Modelled from the spec: the same message with another body (bytes for a value).\<close>

definition set_body :: "'a message \<Rightarrow> 'b \<Rightarrow> 'b message" where
  "set_body m b = \<lparr> seq = seq m, mtype = mtype m, service_method = service_method m,
     status = status m, meta = meta m, body_codec = body_codec m, xfer_pipe = xfer_pipe m,
     body = b \<rparr>"

subsection \<open>Integers and blocks on the wire\<close>

text \<open>Modelled from the spec: one byte of the wire for a 1-byte ID or count (section 4.1).\<close>

definition byte_char :: "uint8 \<Rightarrow> char" where
  "byte_char b = char_of (unat b)"

text \<open>Modelled from the spec: the 1-byte ID or count a byte of the wire stands for.\<close>

definition char_byte :: "char \<Rightarrow> uint8" where
  "char_byte c = word_of_nat (of_char c)"

text \<open>
  Modelled from the spec: a \<^verbatim>\<open>uint32\<close> on the wire, most significant byte first
  (section 4.1, section 6 "byte order network").
\<close>

definition put_u32 :: "int \<Rightarrow> string" where
  "put_u32 n = [char_of (n div 16777216), char_of (n div 65536), char_of (n div 256), char_of n]"

text \<open>Modelled from the spec: reading a \<^verbatim>\<open>uint32\<close>; \<open>None\<close> is a short read.\<close>

definition get_u32 :: "string \<Rightarrow> (int \<times> string) option" where
  "get_u32 s =
     (case s of
        a # b # c # d # s' \<Rightarrow>
          Some (of_char a * 16777216 + of_char b * 65536 + of_char c * 256 + of_char d, s')
      | _ \<Rightarrow> None)"

text \<open>Modelled from the spec: reading one byte; \<open>None\<close> is a short read.\<close>

definition get_u8 :: "string \<Rightarrow> (uint8 \<times> string) option" where
  "get_u8 s = (case s of [] \<Rightarrow> None | c # s' \<Rightarrow> Some (char_byte c, s'))"

text \<open>Modelled from the spec: reading a given number of bytes; \<open>None\<close> is a short read.\<close>

definition take_bytes :: "nat \<Rightarrow> string \<Rightarrow> (string \<times> string) option" where
  "take_bytes n s = (if length s < n then None else Some (take n s, drop n s))"

text \<open>Modelled from the spec: a field written as "uint32 length + bytes" (section 4.1).\<close>

definition put_block :: "string \<Rightarrow> string" where
  "put_block s = put_u32 (int (length s)) @ s"

text \<open>Modelled from the spec: reading a field written as "uint32 length + bytes".\<close>

definition get_block :: "string \<Rightarrow> (string \<times> string) option" where
  "get_block s = (case get_u32 s of None \<Rightarrow> None | Some (n, s') \<Rightarrow> take_bytes (nat n) s')"

subsection \<open>URL-style encoding\<close>

text \<open>
  Modelled from the spec: the bytes the URL encoding of section 4.1 (\<^verbatim>\<open><urlenc>\<close>, "URL-style
  query encoding") leaves as they are: letters, digits and \<^verbatim>\<open>-_.~\<close>.
\<close>

definition unreserved :: "char \<Rightarrow> bool" where
  "unreserved c =
     (let n = (of_char c :: nat)
      in (48 \<le> n \<and> n \<le> 57) \<or> (65 \<le> n \<and> n \<le> 90) \<or> (97 \<le> n \<and> n \<le> 122)
         \<or> c = CHR ''-'' \<or> c = CHR ''_'' \<or> c = CHR ''.'' \<or> c = CHR ''~'')"

text \<open>Modelled from the spec: a hexadecimal digit of a percent escape.\<close>

definition hex_digit :: "nat \<Rightarrow> char" where
  "hex_digit n = (if n < 10 then char_of (48 + n) else char_of (55 + n))"

text \<open>Modelled from the spec: the value of a hexadecimal digit, in either case.\<close>

definition unhex :: "char \<Rightarrow> nat option" where
  "unhex c =
     (let n = (of_char c :: nat)
      in if 48 \<le> n \<and> n \<le> 57 then Some (n - 48)
         else if 65 \<le> n \<and> n \<le> 70 then Some (n - 55)
         else if 97 \<le> n \<and> n \<le> 102 then Some (n - 87)
         else None)"

text \<open>Modelled from the spec: the URL encoding of one byte.\<close>

definition urlenc_char :: "char \<Rightarrow> string" where
  "urlenc_char c =
     (if unreserved c then [c]
      else [CHR ''%'', hex_digit (of_char c div 16), hex_digit (of_char c mod 16)])"

text \<open>Modelled from the spec: \<^verbatim>\<open><urlenc>\<close> of section 4.1, byte by byte.\<close>

definition urlenc :: "string \<Rightarrow> string" where
  "urlenc s = concat (map urlenc_char s)"

text \<open>Modelled from the spec: the inverse of \<^verbatim>\<open><urlenc>\<close>; \<open>None\<close> is a malformed escape.\<close>

fun urldec :: "string \<Rightarrow> string option" where
  "urldec [] = Some []"
| "urldec (c # s) =
     (if c = CHR ''%'' then
        (case s of
           h # l # s' \<Rightarrow>
             (case (unhex h, unhex l) of
                (Some a, Some b) \<Rightarrow> map_option ((#) (char_of (a * 16 + b))) (urldec s')
              | _ \<Rightarrow> None)
         | _ \<Rightarrow> None)
      else map_option ((#) c) (urldec s))"

subsection \<open>Meta and status on the wire\<close>

text \<open>Modelled from the spec: the fields of a string between occurrences of a separator.\<close>

fun split_on :: "char \<Rightarrow> string \<Rightarrow> string list" where
  "split_on c [] = [[]]"
| "split_on c (x # xs) =
     (if x = c then [] # split_on c xs
      else (case split_on c xs of [] \<Rightarrow> [[x]] | f # fs \<Rightarrow> (x # f) # fs))"

text \<open>Modelled from the spec: one pair \<^verbatim>\<open>k=v\<close> of the query encoding of section 4.1.\<close>

definition put_pair :: "string \<times> string \<Rightarrow> string" where
  "put_pair kv = urlenc (fst kv) @ ''='' @ urlenc (snd kv)"

text \<open>
  Modelled from the spec: the meta field of section 4.1, "URL-style query encoding
  \<^verbatim>\<open>k=v&k2=v2...\<close> preserving insertion order".
\<close>

fun meta_query :: "(string \<times> string) list \<Rightarrow> string" where
  "meta_query [] = []"
| "meta_query [kv] = put_pair kv"
| "meta_query (kv # kvs) = put_pair kv @ ''&'' @ meta_query kvs"

text \<open>Modelled from the spec: reading one pair \<^verbatim>\<open>k=v\<close>; \<open>None\<close> is a malformed pair.\<close>

definition get_pair :: "string \<Rightarrow> (string \<times> string) option" where
  "get_pair f =
     (if CHR ''='' \<in> set f then
        (case (urldec (takeWhile (\<lambda>c. c \<noteq> CHR ''='') f),
               urldec (drop 1 (dropWhile (\<lambda>c. c \<noteq> CHR ''='') f))) of
           (Some k, Some v) \<Rightarrow> Some (k, v)
         | _ \<Rightarrow> None)
      else None)"

text \<open>Modelled from the spec: all elements of a list of optional values, if none is missing.\<close>

fun all_some :: "'a option list \<Rightarrow> 'a list option" where
  "all_some [] = Some []"
| "all_some (x # xs) =
     (case x of None \<Rightarrow> None
      | Some y \<Rightarrow> (case all_some xs of None \<Rightarrow> None | Some ys \<Rightarrow> Some (y # ys)))"

text \<open>Modelled from the spec: reading the meta field, in the order of the wire.\<close>

definition parse_meta :: "string \<Rightarrow> (string \<times> string) list option" where
  "parse_meta s = (if s = [] then Some [] else all_some (map get_pair (split_on (CHR ''&'') s)))"

text \<open>Modelled from the spec: a digit of a decimal number.\<close>

definition is_digit :: "char \<Rightarrow> bool" where
  "is_digit c = (48 \<le> (of_char c :: nat) \<and> (of_char c :: nat) \<le> 57)"

text \<open>Modelled from the spec: reading the decimal digits of \<^verbatim>\<open><int>\<close> (section 4.1).\<close>

definition parse_nat :: "string \<Rightarrow> nat option" where
  "parse_nat ds =
     (if ds \<noteq> [] \<and> list_all is_digit ds
      then Some (foldl (\<lambda>a c. a * 10 + (of_char c - 48)) 0 ds) else None)"

text \<open>Modelled from the spec: reading \<^verbatim>\<open><int>\<close>, a decimal number with an optional sign.\<close>

definition parse_int :: "string \<Rightarrow> int option" where
  "parse_int s =
     (case s of
        [] \<Rightarrow> None
      | c # ds \<Rightarrow>
          (if c = CHR ''-'' then map_option (\<lambda>n. - int n) (parse_nat ds)
           else map_option int (parse_nat s)))"

text \<open>
  Modelled from the spec: the stringified status of section 4.1,
  \<^verbatim>\<open>?code=<int>&msg=<urlenc>&cause=<urlenc>\<close>; the code is an \<^verbatim>\<open>int32\<close>.
\<close>

definition status_string :: "Status \<Rightarrow> string" where
  "status_string st =
     ''?code='' @ Itoa (sint (Code st)) @ ''&msg='' @ urlenc (Msg st)
       @ ''&cause='' @ urlenc (Cause st)"

text \<open>Modelled from the spec: a string without a given prefix; \<open>None\<close> if it starts otherwise.\<close>

definition strip_prefix :: "string \<Rightarrow> string \<Rightarrow> string option" where
  "strip_prefix p s = (if take (length p) s = p then Some (drop (length p) s) else None)"

text \<open>
  Modelled from the spec: reading the stringified status. Anything but the three fields
  in their order, a code outside \<^verbatim>\<open>int32\<close> or a malformed escape is malformed.
\<close>

definition parse_status :: "string \<Rightarrow> Status option" where
  "parse_status s =
     (case split_on (CHR ''&'') s of
        [f1, f2, f3] \<Rightarrow>
          (case (strip_prefix ''?code='' f1, strip_prefix ''msg='' f2, strip_prefix ''cause='' f3) of
             (Some c, Some m, Some e) \<Rightarrow>
               (case (parse_int c, urldec m, urldec e) of
                  (Some i, Some m', Some e') \<Rightarrow>
                    (if - (2 ^ 31) \<le> i \<and> i < 2 ^ 31
                     then Some \<lparr>Code = word_of_int i, Msg = m', Cause = e'\<rparr> else None)
                | _ \<Rightarrow> None)
           | _ \<Rightarrow> None)
      | _ \<Rightarrow> None)"

subsection \<open>The frame of the RAW protocol\<close>

text \<open>
  Modelled from the spec: the fields 2 to 9 of the RAW wire layout of section 4.1 (the
  protocol package is missing): the filter count and IDs, the sequence number, the
  message type, the service method, the status (iff the type is REPLY), the meta, the
  body codec, and the body, which is the remainder of the frame. The body of the
  message is here the byte block to emit.
\<close>

definition frame_payload :: "string message \<Rightarrow> string" where
  "frame_payload m =
     char_of (length (xfer_pipe m)) # map byte_char (xfer_pipe m)
     @ put_u32 (uint (seq m))
     @ [byte_char (mtype_byte (mtype m))]
     @ put_block (service_method m)
     @ (case status m of
          Some st \<Rightarrow> (if mtype m = REPLY then put_block (status_string st) else [])
        | None \<Rightarrow> [])
     @ put_block (meta_query (meta m))
     @ [byte_char (body_codec m)]
     @ body m"

text \<open>
  Modelled from the spec: the envelope of section 4.1, the \<^verbatim>\<open>uint32\<close> size (the "length of
  the remainder") before the other fields. "A pipe length > 255 is rejected at encode
  time" (section 4.2); a REPLY without a status breaks the invariant of section 3; a
  remainder whose length does not fit the size field cannot be framed.
\<close>

definition emit_frame :: "string message \<Rightarrow> error_kind + string" where
  "emit_frame m =
     (if 255 < length (xfer_pipe m) then Inl TRANSFER_PIPE_ERROR
      else if mtype m = REPLY \<and> status m = None then Inl INTERNAL
      else if 4294967296 \<le> int (length (frame_payload m)) then Inl ENCODE_ERROR
      else Inr (put_u32 (int (length (frame_payload m))) @ frame_payload m))"

text \<open>
  Modelled from the spec: the encoding path of section 4.1, "codec-encode body, for each
  filter ID in \<^verbatim>\<open>xfer_pipe\<close> in order, transform the byte block, emit envelope". A codec ID
  that is not registered is an ENCODE\_ERROR.
\<close>

definition encode ::
  "xfer_registry \<Rightarrow> 'v codec_registry \<Rightarrow> 'v message \<Rightarrow> error_kind + string" where
  "encode reg codecs m =
     (case codecs (body_codec m) of
        None \<Rightarrow> Inl ENCODE_ERROR
      | Some c \<Rightarrow>
          (case pipe_apply reg (xfer_pipe m) (marshal c (body m)) of
             Inl e \<Rightarrow> Inl e
           | Inr b \<Rightarrow> emit_frame (set_body m b)))"

text \<open>
  Modelled from the spec: the status field of section 4.1, present iff the message type
  is REPLY; \<open>None\<close> is a short read or a malformed status.
\<close>

definition get_status :: "msg_type \<Rightarrow> string \<Rightarrow> (Status option \<times> string) option" where
  "get_status ty s =
     (if ty = REPLY then
        (case get_block s of
           None \<Rightarrow> None
         | Some (b, s') \<Rightarrow>
             (case parse_status b of None \<Rightarrow> None | Some st \<Rightarrow> Some (Some st, s')))
      else Some (None, s))"

text \<open>
  Modelled from the spec: parsing the envelope (section 4.1, decoding path): the size,
  validated against the read limit, then the fields of the frame in the order of the wire
  layout; the body is what remains of the frame. The result is the message with its body
  as on the wire, and the input after the frame. \<open>None\<close> is a short read, a size over the
  limit or a malformed field.
\<close>

definition parse_frame :: "uint32 \<Rightarrow> string \<Rightarrow> (string message \<times> string) option" where
  "parse_frame limit input =
     do {
       (size, s0) \<leftarrow> get_u32 input;
       (frame, rest) \<leftarrow> (if uint limit < size then None else take_bytes (nat size) s0);
       (n, s1) \<leftarrow> get_u8 frame;
       (ids, s2) \<leftarrow> take_bytes (unat n) s1;
       (sq, s3) \<leftarrow> get_u32 s2;
       (mt, s4) \<leftarrow> get_u8 s3;
       ty \<leftarrow> byte_mtype mt;
       (sm, s5) \<leftarrow> get_block s4;
       (st, s6) \<leftarrow> get_status ty s5;
       (mq, s7) \<leftarrow> get_block s6;
       md \<leftarrow> parse_meta mq;
       (cid, s8) \<leftarrow> get_u8 s7;
       Some (\<lparr> seq = word_of_int sq, mtype = ty, service_method = sm, status = st,
               meta = md, body_codec = cid, xfer_pipe = map char_byte ids, body = s8 \<rparr>,
             rest)
     }"

text \<open>
  Modelled from the spec: the first half of the decoding path of section 4.1. "Short read,
  length > limit, unknown codec/filter ID" are fatal protocol errors, and so is a
  malformed envelope (section 7).
\<close>

definition unpack_header ::
  "uint32 \<Rightarrow> xfer_registry \<Rightarrow> 'v codec_registry \<Rightarrow> string
     \<Rightarrow> error_kind + (string message \<times> string)" where
  "unpack_header limit reg codecs input =
     (case parse_frame limit input of
        None \<Rightarrow> Inl PROTOCOL_ERROR
      | Some (raw, rest) \<Rightarrow>
          (if \<not> all_registered reg (xfer_pipe raw) then Inl PROTOCOL_ERROR
           else if codecs (body_codec raw) = None then Inl PROTOCOL_ERROR
           else Inr (raw, rest)))"

text \<open>
  Modelled from the spec: the second half of the decoding path of section 4.1, "for each
  filter ID in reverse, reverse the transform, codec-decode body". A failed reversal is
  a TRANSFER\_PIPE\_ERROR and a failed unmarshal a DECODE\_ERROR (section 7).
\<close>

definition unpack_body ::
  "xfer_registry \<Rightarrow> 'v codec_registry \<Rightarrow> string message \<Rightarrow> error_kind + 'v message" where
  "unpack_body reg codecs raw =
     (case pipe_reverse reg (xfer_pipe raw) (body raw) of
        Inl e \<Rightarrow> Inl e
      | Inr b \<Rightarrow>
          (case codecs (body_codec raw) of
             None \<Rightarrow> Inl PROTOCOL_ERROR
           | Some c \<Rightarrow>
               (case unmarshal c b of
                  None \<Rightarrow> Inl DECODE_ERROR
                | Some v \<Rightarrow> Inr (set_body raw v))))"

text \<open>
  Modelled from the spec: the decoding path of section 4.1 as a whole. The result is the
  message and the input that follows its frame.
\<close>

definition decode ::
  "uint32 \<Rightarrow> xfer_registry \<Rightarrow> 'v codec_registry \<Rightarrow> string
     \<Rightarrow> error_kind + ('v message \<times> string)" where
  "decode limit reg codecs input =
     (case unpack_header limit reg codecs input of
        Inl e \<Rightarrow> Inl e
      | Inr (raw, rest) \<Rightarrow>
          (case unpack_body reg codecs raw of
             Inl e \<Rightarrow> Inl e
           | Inr m \<Rightarrow> Inr (m, rest)))"

text \<open>
  Modelled from the spec: a valid message (section 3) for given registries and read
  limit: the status is present iff the type is REPLY, the pipe has at most 255 filters,
  all of them registered, the codec is registered, and the serialized message fits the
  size field and the read limit.
\<close>

definition valid_message ::
  "uint32 \<Rightarrow> xfer_registry \<Rightarrow> 'v codec_registry \<Rightarrow> 'v message \<Rightarrow> bool" where
  "valid_message limit reg codecs m =
     ((status m \<noteq> None) = (mtype m = REPLY)
      \<and> length (xfer_pipe m) \<le> 255
      \<and> all_registered reg (xfer_pipe m)
      \<and> (case codecs (body_codec m) of
           None \<Rightarrow> False
         | Some c \<Rightarrow>
             (case pipe_apply reg (xfer_pipe m) (marshal c (body m)) of
                Inl e \<Rightarrow> False
              | Inr b \<Rightarrow> int (length (frame_payload (set_body m b))) \<le> uint limit)))"

subsection \<open>Concrete registries for the examples\<close>

text \<open>
  Two filters: one reverses the block (registered at the ID of the letter g), one puts a
  mark before the block and expects it back (at the ID of the letter x). They do not
  commute. The codec for strings puts the body between quotes (at the ID of the letter j).
\<close>

definition example_filters :: xfer_registry where
  "example_filters =
     (\<lambda>i. if i = 103
           then Some \<lparr>filter_name = ''rev'', filter_encode = rev,
                      filter_decode = (\<lambda>b. Some (rev b))\<rparr>
           else if i = 120
           then Some \<lparr>filter_name = ''mark'', filter_encode = (\<lambda>b. CHR ''x'' # b),
                      filter_decode = (\<lambda>b. case b of [] \<Rightarrow> None
                                             | c # b' \<Rightarrow> if c = CHR ''x'' then Some b' else None)\<rparr>
           else None)"

definition example_codecs :: "string codec_registry" where
  "example_codecs =
     (\<lambda>i. if i = 106
           then Some \<lparr>codec_name = ''quoted'',
                      marshal = (\<lambda>v. CHR 0x22 # v @ [CHR 0x22]),
                      unmarshal = (\<lambda>b. if 2 \<le> length b \<and> hd b = CHR 0x22 \<and> last b = CHR 0x22
                                        then Some (butlast (tl b)) else None)\<rparr>
           else None)"

text \<open>The CALL of scenario S1 and a REPLY to it, with the example filter and codec.\<close>

definition example_call :: "string message" where
  "example_call = \<lparr> seq = 7, mtype = CALL, service_method = ''Home.Test'', status = None,
     meta = [(''peer_id'', ''110'')], body_codec = 106, xfer_pipe = [103],
     body = ''andeya'' \<rparr>"

definition example_reply :: "string message" where
  "example_reply = \<lparr> seq = 7, mtype = REPLY, service_method = ''Home.Test'',
     status = Some \<lparr>Code = 0, Msg = '''', Cause = ''''\<rparr>,
     meta = [(''k'', ''a=b''), (''k'', ''c&d'')], body_codec = 106, xfer_pipe = [103, 120, 103],
     body = ''andeya->OK'' \<rparr>"

section \<open>The session\<close>

text \<open>
  The session is not among the sources either. The definitions of this section follow
  section 4.4 of the specification (with its sections 3, 5 and 7) as a sequential state
  machine: each event is processed as one atomic step. The router, the handlers and the
  plugins are a parameter; redial, deadlines other than an explicit expiry event, and the
  encoding done by the write loop are left out.
\<close>

text \<open>Modelled from the spec: the states of the state machine of section 4.4.\<close>

datatype session_state = INIT | ACTIVE | CLOSING | CLOSED

text \<open>
  Modelled from the spec: why a session leaves ACTIVE (section 4.4): "local Close, peer
  Close, read/write error, session-age expiry". A read or write error carries its kind.
\<close>

datatype close_cause = LOCAL_CLOSE | PEER_CLOSE | FATAL error_kind | SESSION_AGE

text \<open>
  Modelled from the spec: what the caller of a CALL observes when its pending call
  completes (section 4.4, CALL method, step 5): the status and body of the REPLY, or an
  error kind.
\<close>

datatype 'v call_outcome = Replied "Status option" 'v | Failed error_kind

text \<open>
  Modelled from the spec: the session of section 3, reduced to what dispatch reads and
  writes: the close-state, the out sequence counter, the map from sequence numbers to
  pending calls (a pending call is kept as the CALL that was sent), and the messages
  handed to the write loop in enqueue order. Two fields record what the session does to
  its surroundings: for each sequence number the outcomes signalled to the caller of
  that call, in order, and the messages discarded and logged.
\<close>

record 'v session =
  state :: session_state
  closed_with :: "close_cause option"
  out_seq :: uint32
  inflight :: "uint32 \<Rightarrow> 'v message option"
  outbox :: "'v message list"
  observed :: "uint32 \<Rightarrow> 'v call_outcome list"
  discarded :: "string message list"

text \<open>
  Modelled from the spec: what a session is configured with: the read limit
  (\<^verbatim>\<open>GetReadLimit\<close> of \<^verbatim>\<open>config.go\<close>), the two registries, and the router with its handlers
  and plugins (sections 4.5 and 4.6) as one function: from an incoming CALL or PUSH, as on
  the wire, and its decoded form or the error of decoding its body, to the messages the
  handling enqueues (for a CALL the REPLY, also when the route is unresolved).
\<close>

record 'v session_config =
  read_limit :: uint32
  filters :: xfer_registry
  body_codecs :: "'v codec_registry"
  handler :: "string message \<Rightarrow> error_kind + 'v message \<Rightarrow> 'v message list"

text \<open>Modelled from the spec: a session as dial or accept creates it (section 3).\<close>

definition new_session :: "'v session" where
  "new_session = \<lparr> state = INIT, closed_with = None, out_seq = 0, inflight = (\<lambda>q. None),
     outbox = [], observed = (\<lambda>q. []), discarded = [] \<rparr>"

text \<open>Modelled from the spec: "INIT to ACTIVE on accept/dial success" (section 4.4).\<close>

definition activate :: "'v session \<Rightarrow> 'v session" where
  "activate s = (if state s = INIT then s\<lparr>state := ACTIVE\<rparr> else s)"

text \<open>
  Modelled from the spec: the completion of one pending call (section 4.4): the outcome
  is delivered to its caller and the pending handle is removed.
\<close>

definition resolve :: "'v session \<Rightarrow> uint32 \<Rightarrow> 'v call_outcome \<Rightarrow> 'v session" where
  "resolve s q out =
     s\<lparr>observed := (observed s)(q := observed s q @ [out]), inflight := (inflight s)(q := None)\<rparr>"

text \<open>
  Modelled from the spec: "resolve-all-on-close" (section 5): every pending call is
  completed with the same outcome and the map is emptied.
\<close>

definition resolve_all :: "'v session \<Rightarrow> 'v call_outcome \<Rightarrow> 'v session" where
  "resolve_all s out =
     s\<lparr>observed := (\<lambda>q. if inflight s q \<noteq> None then observed s q @ [out] else observed s q),
       inflight := (\<lambda>q. None)\<rparr>"

text \<open>
  Modelled from the spec: closing (section 4.4): "ACTIVE to CLOSING" on a cause, then
  "CLOSING to CLOSED after write loop drained, inflight calls resolved with
  TransportError". A session that is not ACTIVE is left as it is.
\<close>

definition close :: "close_cause \<Rightarrow> 'v session \<Rightarrow> 'v session" where
  "close cause s =
     (if state s = ACTIVE
      then (resolve_all (s\<lparr>state := CLOSING, closed_with := Some cause\<rparr>)
              (Failed TRANSPORT_ERROR))\<lparr>state := CLOSED\<rparr>
      else s)"

text \<open>
  Modelled from the spec: the CALL method of section 4.4, steps 1 to 3: "assign next seq
  (fetch-and-add on out-counter)", "install pending-call handle", "hand off to write
  loop". The result is the sequence number, or TRANSPORT\_ERROR on a session that is not
  ACTIVE.
\<close>

definition call :: "'v session \<Rightarrow> 'v message \<Rightarrow> (error_kind + uint32) \<times> 'v session" where
  "call s m =
     (if state s \<noteq> ACTIVE then (Inl TRANSPORT_ERROR, s)
      else
        let q = out_seq s;
            c = m\<lparr>seq := q, mtype := CALL, status := None\<rparr>
        in (Inr q, s\<lparr>out_seq := q + 1, inflight := (inflight s)(q \<mapsto> c),
                      outbox := outbox s @ [c]\<rparr>))"

text \<open>
  Modelled from the spec: the expiry of the deadline of a call (section 5): "the pending
  handle resolves with TIMEOUT status; a late REPLY with that seq is discarded".
\<close>

definition expire :: "'v session \<Rightarrow> uint32 \<Rightarrow> 'v session" where
  "expire s q =
     (if state s = ACTIVE \<and> inflight s q \<noteq> None then resolve s q (Failed TIMEOUT) else s)"

text \<open>
  Modelled from the spec: the dispatch of the read loop (section 4.4). A REPLY: "look up
  pending-call by seq; if present, deliver body+status and signal completion; if absent,
  discard and log"; an error of decoding the reply body resolves that call with the error
  (section 7). A CALL or a PUSH goes to the router, and what its handling enqueues goes to
  the write loop.
\<close>

definition dispatch ::
  "'v session_config \<Rightarrow> 'v session \<Rightarrow> string message \<Rightarrow> error_kind + 'v message
     \<Rightarrow> 'v session" where
  "dispatch cfg s raw decoded =
     (case mtype raw of
        REPLY \<Rightarrow>
          (case inflight s (seq raw) of
             None \<Rightarrow> s\<lparr>discarded := discarded s @ [raw]\<rparr>
           | Some pending \<Rightarrow>
               resolve s (seq raw)
                 (case decoded of Inl e \<Rightarrow> Failed e | Inr m \<Rightarrow> Replied (status m) (body m)))
      | CALL \<Rightarrow> s\<lparr>outbox := outbox s @ handler cfg raw decoded\<rparr>
      | PUSH \<Rightarrow> s\<lparr>outbox := outbox s @ handler cfg raw decoded\<rparr>)"

lemma parse_frame_shorter:
  assumes "parse_frame limit input = Some (raw, rest)"
  shows "length rest < length input"
proof -
  from assms obtain size s0 frame where a: "get_u32 input = Some (size, s0)"
    and b: "take_bytes (nat size) s0 = Some (frame, rest)"
    by (auto simp add: parse_frame_def bind_eq_Some_conv split: if_splits)
  from a have "length s0 < length input"
    by (auto simp add: get_u32_def split: list.splits)
  moreover from b have "length rest \<le> length s0"
    by (auto simp add: take_bytes_def split: if_splits)
  ultimately show ?thesis by simp
qed

lemma unpack_header_shorter:
  "unpack_header limit reg cs input = Inr (raw, rest) \<Longrightarrow> length rest < length input"
  by (auto simp add: unpack_header_def split: option.splits if_splits
        dest: parse_frame_shorter)

text \<open>
  Modelled from the spec: the read loop (section 4.4), "repeatedly decode one message;
  dispatch", on the bytes the transport delivers, while the session is ACTIVE. A fatal
  protocol error closes the session (sections 4.1 and 7).
\<close>

function read_loop :: "'v session_config \<Rightarrow> 'v session \<Rightarrow> string \<Rightarrow> 'v session" where
  "read_loop cfg s input =
     (if state s \<noteq> ACTIVE \<or> input = [] then s
      else
        (case unpack_header (read_limit cfg) (filters cfg) (body_codecs cfg) input of
           Inl e \<Rightarrow> close (FATAL e) s
         | Inr (raw, rest) \<Rightarrow>
             read_loop cfg
               (dispatch cfg s raw (unpack_body (filters cfg) (body_codecs cfg) raw)) rest))"
  by pat_completeness auto
termination
  by (relation "measure (\<lambda>(cfg, s, input). length input)")
     (auto dest: unpack_header_shorter)

declare read_loop.simps [simp del]

text \<open>Modelled from the spec: what happens to a session (sections 4.4 and 5).\<close>

datatype 'v event =
    Connected
  | Call "'v message"
  | Recv string
  | Expire uint32
  | Close close_cause

text \<open>Modelled from the spec: the session after one event.\<close>

fun step :: "'v session_config \<Rightarrow> 'v session \<Rightarrow> 'v event \<Rightarrow> 'v session" where
  "step cfg s Connected = activate s"
| "step cfg s (Call m) = snd (call s m)"
| "step cfg s (Recv input) = read_loop cfg s input"
| "step cfg s (Expire q) = expire s q"
| "step cfg s (Close cause) = close cause s"

text \<open>Modelled from the spec: the session after a sequence of events.\<close>

definition run :: "'v session_config \<Rightarrow> 'v session \<Rightarrow> 'v event list \<Rightarrow> 'v session" where
  "run cfg s evs = foldl (step cfg) s evs"

text \<open>The session without its log of discarded messages.\<close>

definition forget_log :: "'v session \<Rightarrow> 'v session" where
  "forget_log s = s\<lparr>discarded := []\<rparr>"

text \<open>
  Modelled from the spec: setting the read limit (\<^verbatim>\<open>socket.SetMessageSizeLimit\<close> is
  missing), after section 6, "maximum frame size configurable (default 1 GiB)", and the
  doc comment of \<^verbatim>\<open>SetReadLimit\<close> in \<^verbatim>\<open>config.go\<close>: "If maxSize<=0, set it to 1GB".
\<close>

definition SetReadLimit :: "uint32 \<Rightarrow> uint32" where
  "SetReadLimit maxMessageSize = (if maxMessageSize = 0 then 1073741824 else maxMessageSize)"

subsection \<open>A concrete session for the examples\<close>

text \<open>
  A router that answers every CALL with an ok REPLY that echoes the body (or with a
  status of code 500 when the body could not be decoded) and ignores every PUSH.
\<close>

definition example_handler :: "string message \<Rightarrow> error_kind + string message \<Rightarrow> string message list" where
  "example_handler raw decoded =
     (if mtype raw = CALL then
        (case decoded of
           Inr m \<Rightarrow> [m\<lparr>mtype := REPLY, status := Some \<lparr>Code = 0, Msg = '''', Cause = ''''\<rparr>\<rparr>]
         | Inl e \<Rightarrow> [set_body (raw\<lparr>mtype := REPLY,
                                     status := Some \<lparr>Code = 500, Msg = ''bad body'', Cause = ''''\<rparr>\<rparr>) ''''])
      else [])"

definition example_config :: "string session_config" where
  "example_config = \<lparr> read_limit = 1000, filters = example_filters, body_codecs = example_codecs,
     handler = example_handler \<rparr>"

text \<open>An ACTIVE session with two calls in flight, with the sequence numbers 0 and 1.\<close>

definition example_session :: "string session" where
  "example_session =
     snd (call (snd (call (activate new_session) example_call)) example_call)"

text \<open>
  The example config with the default read limit, and three inputs that must not be
  accepted under the example config: a size field of 1001 (the read limit is 1000), and
  the frames of the example CALL with the codec ID of the letter k and with the filter ID
  of the letter h, neither of which is registered.
\<close>

definition default_limit_config :: "string session_config" where
  "default_limit_config = example_config\<lparr>read_limit := SetReadLimit 0\<rparr>"

definition oversize_input :: string where
  "oversize_input = put_u32 1001 @ ''whatever follows''"

definition unknown_codec_frame :: "string message" where
  "unknown_codec_frame = example_call\<lparr>body_codec := 107\<rparr>"

definition unknown_filter_frame :: "string message" where
  "unknown_filter_frame = example_call\<lparr>xfer_pipe := [103, 104]\<rparr>"

text \<open>The bytes of the example REPLY, and of the REPLY to the call with sequence number 1.\<close>

definition stray_reply_bytes :: string where
  "stray_reply_bytes = projr (encode example_filters example_codecs example_reply)"

text \<open>The example REPLY as it is on the wire: quoted, reversed, marked and reversed again.\<close>

definition stray_reply_raw :: "string message" where
  "stray_reply_raw = set_body example_reply (CHR 0x22 # ''andeya->OK'' @ [CHR 0x22, CHR ''x''])"

definition reply_1_bytes :: string where
  "reply_1_bytes = projr (encode example_filters example_codecs (example_reply\<lparr>seq := 1\<rparr>))"

section \<open>Properties of the peer configuration\<close>

lemma check_sets_checked: "checked (snd (check env p))"
  by (simp add: check_def Let_def split: option.splits)

lemma check_skips_when_checked: "checked p \<Longrightarrow> check env p = (None, p)"
  by (simp add: check_def)

lemma MaxInt64_greatest: "sint (d :: Duration) \<le> sint MaxInt64"
  using sint_lt [of d] by (simp add: MaxInt64_def)

text \<open>
  C9. Once \<^verbatim>\<open>check\<close> has returned on a config (with or without an error), the flag
  \<^verbatim>\<open>checked\<close> is set; every further \<^verbatim>\<open>check\<close>, also the ones inside \<^verbatim>\<open>ListenAddr\<close> and
  \<^verbatim>\<open>LocalAddr\<close>, returns nil and leaves the whole struct as it is, whatever the environment
  has become. \<^verbatim>\<open>Reload\<close>, when its bind function succeeds, clears the flag: its result is
  that of \<^verbatim>\<open>check\<close> run on the freshly bound struct with the flag clear.
\<close>

theorem check_idempotent:
  "checked (snd (check env p))
   \<and> check env' (snd (check env p)) = (None, snd (check env p))
   \<and> ListenAddr env' (snd (check env p)) = (listenAddr (snd (check env p)), snd (check env p))
   \<and> LocalAddr env' (snd (check env p)) = (localAddr (snd (check env p)), snd (check env p))
   \<and> (fst (bindf (snd (check env p))) = None \<longrightarrow>
        Reload env' bindf (snd (check env p))
          = check env' ((snd (bindf (snd (check env p))))\<lparr>checked := False\<rparr>))"
  by (simp add: check_sets_checked check_skips_when_checked ListenAddr_def LocalAddr_def
        Reload_def Let_def split: prod.splits option.splits)

text \<open>
  The theorem at the zero config, with a bind function that switches the network to
  \<^verbatim>\<open>quic\<close>: the second \<^verbatim>\<open>check\<close> changes nothing, and \<^verbatim>\<open>Reload\<close> checks again (the local
  address becomes the one of the new network).
\<close>

theorem check_idempotent_witness:
  "check example_env (snd (check example_env zeroPeerConfig))
     = (None, snd (check example_env zeroPeerConfig))
   \<and> fst ((\<lambda>q. (None, q\<lparr>Network := ''quic''\<rparr>)) (snd (check example_env zeroPeerConfig))) = None
   \<and> Reload example_env (\<lambda>q. (None, q\<lparr>Network := ''quic''\<rparr>)) (snd (check example_env zeroPeerConfig))
       = check example_env
           ((snd (check example_env zeroPeerConfig))\<lparr>Network := ''quic'', checked := False\<rparr>)
   \<and> localAddr (snd (check example_env zeroPeerConfig))
       \<noteq> localAddr (snd (Reload example_env (\<lambda>q. (None, q\<lparr>Network := ''quic''\<rparr>))
                             (snd (check example_env zeroPeerConfig))))"
proof -
  have "localAddr (snd (check example_env zeroPeerConfig))
       \<noteq> localAddr (snd (Reload example_env (\<lambda>q. (None, q\<lparr>Network := ''quic''\<rparr>))
                             (snd (check example_env zeroPeerConfig))))"
    by code_simp
  then show ?thesis
    using check_idempotent [of example_env zeroPeerConfig example_env
                               "\<lambda>q. (None, q\<lparr>Network := ''quic''\<rparr>)"]
    by simp
qed

text \<open>
  C8, as the spec has it, fails: \<^verbatim>\<open>check\<close> sets the flag \<^verbatim>\<open>checked\<close> before it validates
  the network, so after a first \<^verbatim>\<open>check\<close> that failed, a second one returns nil at once
  and the interval that was left at zero is still zero.
\<close>

theorem RedialInterval_default_counterexample:
  "fst (check example_env (zeroPeerConfig\<lparr>Network := ''bogus''\<rparr>)) \<noteq> None
   \<and> fst (check example_env (snd (check example_env (zeroPeerConfig\<lparr>Network := ''bogus''\<rparr>)))) = None
   \<and> RedialInterval (zeroPeerConfig\<lparr>Network := ''bogus''\<rparr>) = 0
   \<and> RedialInterval (snd (check example_env
        (snd (check example_env (zeroPeerConfig\<lparr>Network := ''bogus''\<rparr>))))) \<noteq> Millisecond * 100"
  by code_simp

text \<open>
  C8, amended. After a \<^verbatim>\<open>check\<close> that found the flag \<^verbatim>\<open>checked\<close> clear and returned nil,
  \<^verbatim>\<open>RedialInterval\<close> is 100 milliseconds if it was zero (or negative) before, and is the
  configured value if that was positive.
\<close>

theorem check_RedialInterval:
  assumes "\<not> checked p" and "fst (check env p) = None"
  shows "RedialInterval (snd (check env p))
           = (if sint (RedialInterval p) \<le> 0 then 100 * Millisecond else RedialInterval p)"
  using assms by (auto simp add: check_def Let_def Millisecond_def split: option.splits if_splits)

theorem check_RedialInterval_witness:
  "\<not> checked zeroPeerConfig \<and> fst (check example_env zeroPeerConfig) = None
   \<and> RedialInterval zeroPeerConfig = 0
   \<and> RedialInterval (snd (check example_env zeroPeerConfig)) = 100 * Millisecond
   \<and> \<not> checked (zeroPeerConfig\<lparr>RedialInterval := Second\<rparr>)
   \<and> fst (check example_env (zeroPeerConfig\<lparr>RedialInterval := Second\<rparr>)) = None
   \<and> RedialInterval (snd (check example_env (zeroPeerConfig\<lparr>RedialInterval := Second\<rparr>))) = Second"
proof -
  have a: "\<not> checked zeroPeerConfig" "fst (check example_env zeroPeerConfig) = None"
    by code_simp+
  have b: "\<not> checked (zeroPeerConfig\<lparr>RedialInterval := Second\<rparr>)"
    "fst (check example_env (zeroPeerConfig\<lparr>RedialInterval := Second\<rparr>)) = None"
    by code_simp+
  have c: "RedialInterval zeroPeerConfig = 0" "0 < sint Second"
    by (simp_all add: zeroPeerConfig_def Second_def)
  show ?thesis
    using a b c check_RedialInterval [OF a] check_RedialInterval [OF b] by simp
qed

text \<open>
  C10, as the spec has it, fails: a \<^verbatim>\<open>check\<close> that fails on the network returns before
  it reaches the threshold, which keeps the zero value of the struct.
\<close>

theorem slowCometDuration_counterexample:
  "\<not> 0 < sint (SlowCometDuration (zeroPeerConfig\<lparr>Network := ''bogus''\<rparr>))
   \<and> slowCometDuration (snd (check example_env (zeroPeerConfig\<lparr>Network := ''bogus''\<rparr>))) = 0
   \<and> slowCometDuration (snd (check example_env (zeroPeerConfig\<lparr>Network := ''bogus''\<rparr>))) \<noteq> MaxInt64"
  by code_simp

text \<open>
  C10, amended. After a \<^verbatim>\<open>check\<close> that found the flag \<^verbatim>\<open>checked\<close> clear and returned nil,
  \<^verbatim>\<open>slowCometDuration\<close> is the configured \<^verbatim>\<open>SlowCometDuration\<close> when that is strictly
  positive and the largest \<^verbatim>\<open>int64\<close> otherwise, a value no duration exceeds.
\<close>

theorem check_slowCometDuration:
  assumes "\<not> checked p" and "fst (check env p) = None"
  shows "slowCometDuration (snd (check env p))
           = (if 0 < sint (SlowCometDuration p) then SlowCometDuration p else MaxInt64)
         \<and> sint MaxInt64 = 2 ^ 63 - 1 \<and> (\<forall>d :: Duration. sint d \<le> sint MaxInt64)"
proof -
  have "slowCometDuration (snd (check env p))
           = (if 0 < sint (SlowCometDuration p) then SlowCometDuration p else MaxInt64)"
    using assms by (auto simp add: check_def Let_def split: option.splits if_splits)
  moreover have "sint MaxInt64 = 2 ^ 63 - 1"
    by (simp add: MaxInt64_def)
  ultimately show ?thesis
    using MaxInt64_greatest by blast
qed

theorem check_slowCometDuration_witness:
  "\<not> checked zeroPeerConfig \<and> fst (check example_env zeroPeerConfig) = None
   \<and> slowCometDuration (snd (check example_env zeroPeerConfig)) = MaxInt64
   \<and> \<not> checked (zeroPeerConfig\<lparr>SlowCometDuration := Second\<rparr>)
   \<and> fst (check example_env (zeroPeerConfig\<lparr>SlowCometDuration := Second\<rparr>)) = None
   \<and> slowCometDuration (snd (check example_env (zeroPeerConfig\<lparr>SlowCometDuration := Second\<rparr>)))
       = Second"
proof -
  have a: "\<not> checked zeroPeerConfig" "fst (check example_env zeroPeerConfig) = None"
    by code_simp+
  have b: "\<not> checked (zeroPeerConfig\<lparr>SlowCometDuration := Second\<rparr>)"
    "fst (check example_env (zeroPeerConfig\<lparr>SlowCometDuration := Second\<rparr>)) = None"
    by code_simp+
  have c: "SlowCometDuration zeroPeerConfig = 0" "0 < sint Second"
    by (simp_all add: zeroPeerConfig_def Second_def)
  show ?thesis
    using a b c check_slowCometDuration [OF a] check_slowCometDuration [OF b] by simp
qed

lemma newAddr_no_case:
  "Network p \<notin> accepted_networks \<Longrightarrow> newAddr env p prt = (None, Some (ErrorsNew invalid_network_msg))"
  by (simp add: newAddr_def accepted_networks_def)

lemma check_returns_newAddr_error:
  "\<not> checked p \<Longrightarrow> fst (check env p) =
     snd (newAddr env
            (p\<lparr>checked := True,
               Network := (if Network p = '''' then ''tcp'' else Network p),
               LocalIP := (if LocalIP p = '''' then ''0.0.0.0'' else LocalIP p)\<rparr>)
            (Itoa (uint (LocalPort p))))"
  by (simp add: check_def Let_def split: option.splits)

text \<open>
  C6, as the spec has it, fails in three ways. The network \<^verbatim>\<open>udp\<close> is outside the listed
  set, yet \<^verbatim>\<open>newAddr\<close> has a \<^verbatim>\<open>case\<close> for it (with \<^verbatim>\<open>udp4\<close> and \<^verbatim>\<open>udp6\<close>) and builds a
  \<^verbatim>\<open>kcp\<close> address, so \<^verbatim>\<open>check\<close> returns nil. The empty network is outside the set, yet
  \<^verbatim>\<open>check\<close> replaces it by \<^verbatim>\<open>tcp\<close> and returns nil. And \<^verbatim>\<open>tcp\<close> is inside the set, yet
  \<^verbatim>\<open>newAddr\<close> returns the resolver's error when the local IP does not resolve.
\<close>

theorem network_set_counterexample:
  "''udp'' \<notin> documented_networks
   \<and> snd (newAddr example_env (zeroPeerConfig\<lparr>Network := ''udp'', LocalIP := ''0.0.0.0''\<rparr>) ''0'') = None
   \<and> holds_address
       (fst (newAddr example_env (zeroPeerConfig\<lparr>Network := ''udp'', LocalIP := ''0.0.0.0''\<rparr>) ''0''))
   \<and> fst (check example_env (zeroPeerConfig\<lparr>Network := ''udp''\<rparr>)) = None
   \<and> '''' \<notin> documented_networks
   \<and> fst (check example_env (zeroPeerConfig\<lparr>Network := ''''\<rparr>)) = None
   \<and> ''tcp'' \<in> documented_networks
   \<and> snd (newAddr example_env
             (zeroPeerConfig\<lparr>Network := ''tcp'', LocalIP := ''nowhere.invalid''\<rparr>) ''0'') \<noteq> None
   \<and> fst (check example_env
             (zeroPeerConfig\<lparr>Network := ''tcp'', LocalIP := ''nowhere.invalid''\<rparr>)) \<noteq> None"
  by code_simp

lemma newAddr_unix:
  "Network p \<in> {''unix'', ''unixpacket''} \<longrightarrow>
     snd (newAddr env p prt) = None \<and> holds_address (fst (newAddr env p prt))"
  by (auto simp add: newAddr_def ResolveUnixAddr_def holds_address_def)

lemma newAddr_tcp:
  "Network p \<in> {''tcp'', ''tcp4'', ''tcp6''} \<longrightarrow>
     (case ResolveTCPAddr env (Network p) (JoinHostPort (LocalIP p) prt) of
        Inl e \<Rightarrow> snd (newAddr env p prt) = Some e
      | Inr a \<Rightarrow> snd (newAddr env p prt) = None \<and> holds_address (fst (newAddr env p prt)))"
  by (auto simp add: newAddr_def holds_address_def split: sum.splits)

lemma newAddr_udp:
  "Network p \<in> {''kcp'', ''udp'', ''udp4'', ''udp6'', ''quic''} \<longrightarrow>
     (case ResolveUDPAddr env ''udp'' (JoinHostPort (LocalIP p) prt) of
        Inl e \<Rightarrow> snd (newAddr env p prt) = Some e
      | Inr a \<Rightarrow> snd (newAddr env p prt) = None \<and> holds_address (fst (newAddr env p prt)))"
  by (auto simp add: newAddr_def holds_address_def split: sum.splits)

lemma check_sets_listenAddr:
  assumes "\<not> checked p" and "fst (check env p) = None"
  shows "listenAddr (snd (check env p)) \<noteq> None"
  using assms by (auto simp add: check_def Let_def split: option.splits if_splits)

lemma check_first_run:
  assumes "\<not> checked p"
  defines "q \<equiv> p\<lparr>checked := True, Network := network_in_check p, LocalIP := ip_in_check p\<rparr>"
  shows "fst (check env p) = snd (newAddr env q (port_in_check p))"
    and "localAddr (snd (check env p)) = fst (newAddr env q (port_in_check p))"
    and "Network (snd (check env p)) = network_in_check p"
    and "LocalIP (snd (check env p)) = ip_in_check p"
    and "snd (newAddr env q (port_in_check p)) = None \<Longrightarrow> listenAddr (snd (check env p)) \<noteq> None"
proof -
  note defs = check_def Let_def q_def network_in_check_def ip_in_check_def port_in_check_def
  show "localAddr (snd (check env p)) = fst (newAddr env q (port_in_check p))"
    using assms(1) by (simp add: defs split: option.splits)
  show "Network (snd (check env p)) = network_in_check p"
    using assms(1) by (simp add: defs split: option.splits)
  show "LocalIP (snd (check env p)) = ip_in_check p"
    using assms(1) by (simp add: defs split: option.splits)
  show "fst (check env p) = snd (newAddr env q (port_in_check p))"
    using assms(1) by (simp add: defs split: option.splits)
  then show "listenAddr (snd (check env p)) \<noteq> None"
    if "snd (newAddr env q (port_in_check p)) = None"
    using assms(1) that by (simp add: check_sets_listenAddr)
qed

text \<open>
  C6, amended. For every network outside \<^verbatim>\<open>tcp\<close>, \<^verbatim>\<open>tcp4\<close>, \<^verbatim>\<open>tcp6\<close>, \<^verbatim>\<open>unix\<close>,
  \<^verbatim>\<open>unixpacket\<close>, \<^verbatim>\<open>kcp\<close>, \<^verbatim>\<open>udp\<close>, \<^verbatim>\<open>udp4\<close>, \<^verbatim>\<open>udp6\<close>, \<^verbatim>\<open>quic\<close>, \<^verbatim>\<open>newAddr\<close> returns no
  address and the invalid-network error, and so does a \<^verbatim>\<open>check\<close> that finds the flag
  \<^verbatim>\<open>checked\<close> clear, unless the network is empty (which \<^verbatim>\<open>check\<close> reads as \<^verbatim>\<open>tcp\<close>). For
  every network inside the set, \<^verbatim>\<open>newAddr\<close> returns nil as its error exactly when the
  address \<^verbatim>\<open>LocalIP:port\<close> resolves (always for the unix networks, which resolve without
  a lookup), it then returns an address, and it returns the resolver's error otherwise.
  A \<^verbatim>\<open>check\<close> that finds the flag clear works on the network with \<^verbatim>\<open>tcp\<close> for the empty
  one, on the local IP with \<^verbatim>\<open>0.0.0.0\<close> for the empty one and on the local port, and
  leaves that network and IP in the config; for a network inside the set it returns nil
  exactly when that address resolves (always for the unix networks), and then the local
  address of the config holds an address and the listen address is set; when the address
  does not resolve, \<^verbatim>\<open>check\<close> returns the resolver's error.
\<close>

theorem newAddr_network_cases:
  "(Network p \<notin> accepted_networks \<longrightarrow>
      newAddr env p prt = (None, Some (ErrorsNew invalid_network_msg)))
   \<and> (\<not> checked p \<and> Network p \<notin> accepted_networks \<and> Network p \<noteq> '''' \<longrightarrow>
        fst (check env p) = Some (ErrorsNew invalid_network_msg))
   \<and> (Network p \<in> {''unix'', ''unixpacket''} \<longrightarrow>
        snd (newAddr env p prt) = None \<and> holds_address (fst (newAddr env p prt)))
   \<and> (Network p \<in> {''tcp'', ''tcp4'', ''tcp6''} \<longrightarrow>
        (case ResolveTCPAddr env (Network p) (JoinHostPort (LocalIP p) prt) of
           Inl e \<Rightarrow> snd (newAddr env p prt) = Some e
         | Inr a \<Rightarrow> snd (newAddr env p prt) = None \<and> holds_address (fst (newAddr env p prt))))
   \<and> (Network p \<in> {''kcp'', ''udp'', ''udp4'', ''udp6'', ''quic''} \<longrightarrow>
        (case ResolveUDPAddr env ''udp'' (JoinHostPort (LocalIP p) prt) of
           Inl e \<Rightarrow> snd (newAddr env p prt) = Some e
         | Inr a \<Rightarrow> snd (newAddr env p prt) = None \<and> holds_address (fst (newAddr env p prt))))
   \<and> (Network p = '''' \<longrightarrow> network_in_check p = ''tcp'')
   \<and> (Network p \<noteq> '''' \<longrightarrow> network_in_check p = Network p)
   \<and> (\<not> checked p \<longrightarrow>
        Network (snd (check env p)) = network_in_check p
        \<and> LocalIP (snd (check env p)) = ip_in_check p)
   \<and> (\<not> checked p \<and> network_in_check p \<notin> accepted_networks \<longrightarrow>
        fst (check env p) = Some (ErrorsNew invalid_network_msg)
        \<and> localAddr (snd (check env p)) = None)
   \<and> (\<not> checked p \<and> network_in_check p \<in> {''unix'', ''unixpacket''} \<longrightarrow>
        fst (check env p) = None \<and> holds_address (localAddr (snd (check env p)))
        \<and> listenAddr (snd (check env p)) \<noteq> None)
   \<and> (\<not> checked p \<and> network_in_check p \<in> {''tcp'', ''tcp4'', ''tcp6''} \<longrightarrow>
        (case ResolveTCPAddr env (network_in_check p)
                (JoinHostPort (ip_in_check p) (port_in_check p)) of
           Inl e \<Rightarrow> fst (check env p) = Some e
         | Inr a \<Rightarrow> fst (check env p) = None \<and> holds_address (localAddr (snd (check env p)))
                    \<and> listenAddr (snd (check env p)) \<noteq> None))
   \<and> (\<not> checked p \<and> network_in_check p \<in> {''kcp'', ''udp'', ''udp4'', ''udp6'', ''quic''} \<longrightarrow>
        (case ResolveUDPAddr env ''udp'' (JoinHostPort (ip_in_check p) (port_in_check p)) of
           Inl e \<Rightarrow> fst (check env p) = Some e
         | Inr a \<Rightarrow> fst (check env p) = None \<and> holds_address (localAddr (snd (check env p)))
                    \<and> listenAddr (snd (check env p)) \<noteq> None))"
proof -
  define q where "q = p\<lparr>checked := True, Network := network_in_check p, LocalIP := ip_in_check p\<rparr>"
  have q: "Network q = network_in_check p" "LocalIP q = ip_in_check p"
    by (simp_all add: q_def)
  note run = check_first_run [of p env, folded q_def]
  have outside: "Network p \<notin> accepted_networks \<longrightarrow>
      newAddr env p prt = (None, Some (ErrorsNew invalid_network_msg))"
    by (simp add: newAddr_no_case)
  have first_check: "\<not> checked p \<and> Network p \<notin> accepted_networks \<and> Network p \<noteq> '''' \<longrightarrow>
        fst (check env p) = Some (ErrorsNew invalid_network_msg)"
    by (simp add: check_returns_newAddr_error newAddr_no_case)
  have unix: "Network p \<in> {''unix'', ''unixpacket''} \<longrightarrow>
        snd (newAddr env p prt) = None \<and> holds_address (fst (newAddr env p prt))"
    using newAddr_unix by blast
  have tcp: "Network p \<in> {''tcp'', ''tcp4'', ''tcp6''} \<longrightarrow>
        (case ResolveTCPAddr env (Network p) (JoinHostPort (LocalIP p) prt) of
           Inl e \<Rightarrow> snd (newAddr env p prt) = Some e
         | Inr a \<Rightarrow> snd (newAddr env p prt) = None \<and> holds_address (fst (newAddr env p prt)))"
    using newAddr_tcp by blast
  have udp: "Network p \<in> {''kcp'', ''udp'', ''udp4'', ''udp6'', ''quic''} \<longrightarrow>
        (case ResolveUDPAddr env ''udp'' (JoinHostPort (LocalIP p) prt) of
           Inl e \<Rightarrow> snd (newAddr env p prt) = Some e
         | Inr a \<Rightarrow> snd (newAddr env p prt) = None \<and> holds_address (fst (newAddr env p prt)))"
    using newAddr_udp by blast
  have reads: "(Network p = '''' \<longrightarrow> network_in_check p = ''tcp'')
      \<and> (Network p \<noteq> '''' \<longrightarrow> network_in_check p = Network p)"
    by (simp add: network_in_check_def)
  have keeps: "\<not> checked p \<longrightarrow>
        Network (snd (check env p)) = network_in_check p
        \<and> LocalIP (snd (check env p)) = ip_in_check p"
    using run(3,4) by simp
  have c_outside: "\<not> checked p \<and> network_in_check p \<notin> accepted_networks \<longrightarrow>
        fst (check env p) = Some (ErrorsNew invalid_network_msg)
        \<and> localAddr (snd (check env p)) = None"
  proof
    assume a: "\<not> checked p \<and> network_in_check p \<notin> accepted_networks"
    then have "newAddr env q (port_in_check p) = (None, Some (ErrorsNew invalid_network_msg))"
      by (intro newAddr_no_case) (simp add: q)
    with a run(1,2) show "fst (check env p) = Some (ErrorsNew invalid_network_msg)
        \<and> localAddr (snd (check env p)) = None"
      by simp
  qed
  have c_unix: "\<not> checked p \<and> network_in_check p \<in> {''unix'', ''unixpacket''} \<longrightarrow>
        fst (check env p) = None \<and> holds_address (localAddr (snd (check env p)))
        \<and> listenAddr (snd (check env p)) \<noteq> None"
  proof
    assume a: "\<not> checked p \<and> network_in_check p \<in> {''unix'', ''unixpacket''}"
    then have "snd (newAddr env q (port_in_check p)) = None
        \<and> holds_address (fst (newAddr env q (port_in_check p)))"
      using newAddr_unix [of q env "port_in_check p"] by (simp add: q)
    with a run(1,2,5) show "fst (check env p) = None \<and> holds_address (localAddr (snd (check env p)))
        \<and> listenAddr (snd (check env p)) \<noteq> None"
      by simp
  qed
  have c_tcp: "\<not> checked p \<and> network_in_check p \<in> {''tcp'', ''tcp4'', ''tcp6''} \<longrightarrow>
        (case ResolveTCPAddr env (network_in_check p)
                (JoinHostPort (ip_in_check p) (port_in_check p)) of
           Inl e \<Rightarrow> fst (check env p) = Some e
         | Inr a \<Rightarrow> fst (check env p) = None \<and> holds_address (localAddr (snd (check env p)))
                    \<and> listenAddr (snd (check env p)) \<noteq> None)"
  proof
    assume a: "\<not> checked p \<and> network_in_check p \<in> {''tcp'', ''tcp4'', ''tcp6''}"
    then have "Network q \<in> {''tcp'', ''tcp4'', ''tcp6''}"
      by (simp add: q)
    with newAddr_tcp [of q env "port_in_check p"]
    have r: "(case ResolveTCPAddr env (Network q) (JoinHostPort (LocalIP q) (port_in_check p)) of
           Inl e \<Rightarrow> snd (newAddr env q (port_in_check p)) = Some e
         | Inr a \<Rightarrow> snd (newAddr env q (port_in_check p)) = None
                    \<and> holds_address (fst (newAddr env q (port_in_check p))))"
      by blast
    show "(case ResolveTCPAddr env (network_in_check p) (JoinHostPort (ip_in_check p) (port_in_check p)) of
           Inl e \<Rightarrow> fst (check env p) = Some e
         | Inr a \<Rightarrow> fst (check env p) = None \<and> holds_address (localAddr (snd (check env p)))
                    \<and> listenAddr (snd (check env p)) \<noteq> None)"
      using r a run(1,2,5) unfolding q
      by (cases "ResolveTCPAddr env (network_in_check p) (JoinHostPort (ip_in_check p) (port_in_check p))") simp_all
  qed
  have c_udp: "\<not> checked p \<and> network_in_check p \<in> {''kcp'', ''udp'', ''udp4'', ''udp6'', ''quic''} \<longrightarrow>
        (case ResolveUDPAddr env ''udp'' (JoinHostPort (ip_in_check p) (port_in_check p)) of
           Inl e \<Rightarrow> fst (check env p) = Some e
         | Inr a \<Rightarrow> fst (check env p) = None \<and> holds_address (localAddr (snd (check env p)))
                    \<and> listenAddr (snd (check env p)) \<noteq> None)"
  proof
    assume a: "\<not> checked p \<and> network_in_check p \<in> {''kcp'', ''udp'', ''udp4'', ''udp6'', ''quic''}"
    then have "Network q \<in> {''kcp'', ''udp'', ''udp4'', ''udp6'', ''quic''}"
      by (simp add: q)
    with newAddr_udp [of q env "port_in_check p"]
    have r: "(case ResolveUDPAddr env ''udp'' (JoinHostPort (LocalIP q) (port_in_check p)) of
           Inl e \<Rightarrow> snd (newAddr env q (port_in_check p)) = Some e
         | Inr a \<Rightarrow> snd (newAddr env q (port_in_check p)) = None
                    \<and> holds_address (fst (newAddr env q (port_in_check p))))"
      by blast
    show "(case ResolveUDPAddr env ''udp'' (JoinHostPort (ip_in_check p) (port_in_check p)) of
           Inl e \<Rightarrow> fst (check env p) = Some e
         | Inr a \<Rightarrow> fst (check env p) = None \<and> holds_address (localAddr (snd (check env p)))
                    \<and> listenAddr (snd (check env p)) \<noteq> None)"
      using r a run(1,2,5) unfolding q
      by (cases "ResolveUDPAddr env ''udp'' (JoinHostPort (ip_in_check p) (port_in_check p))") simp_all
  qed
  from outside first_check unix tcp udp reads keeps c_outside c_unix c_tcp c_udp show ?thesis
    by blast
qed

text \<open>
  The theorem at seven configs. For \<^verbatim>\<open>newAddr\<close>: an unknown network, the unix network,
  \<^verbatim>\<open>tcp\<close> on the wildcard address, \<^verbatim>\<open>tcp\<close> on a name that does not resolve, and \<^verbatim>\<open>quic\<close>.
  For \<^verbatim>\<open>check\<close>: the zero config (empty network and IP, read as \<^verbatim>\<open>tcp\<close> on \<^verbatim>\<open>0.0.0.0\<close>),
  which succeeds and stores an address; \<^verbatim>\<open>udp\<close>, which succeeds; the unix network,
  which succeeds; \<^verbatim>\<open>tcp\<close> on a name that does not resolve, which returns the resolver's
  error; and the unknown network, which returns the invalid-network error.
\<close>

theorem newAddr_network_cases_witness:
  "newAddr example_env (zeroPeerConfig\<lparr>Network := ''bogus''\<rparr>) ''0''
      = (None, Some (ErrorsNew invalid_network_msg))
   \<and> fst (check example_env (zeroPeerConfig\<lparr>Network := ''bogus''\<rparr>))
      = Some (ErrorsNew invalid_network_msg)
   \<and> snd (newAddr example_env (zeroPeerConfig\<lparr>Network := ''unix''\<rparr>) ''0'') = None
   \<and> snd (newAddr example_env (zeroPeerConfig\<lparr>Network := ''tcp'', LocalIP := ''0.0.0.0''\<rparr>) ''0'')
      = None
   \<and> snd (newAddr example_env
            (zeroPeerConfig\<lparr>Network := ''tcp'', LocalIP := ''nowhere.invalid''\<rparr>) ''0'')
      = Some (ResolveError ''lookup failed: nowhere.invalid:0'')
   \<and> holds_address
       (fst (newAddr example_env (zeroPeerConfig\<lparr>Network := ''quic'', LocalIP := ''0.0.0.0''\<rparr>) ''0''))
   \<and> \<not> checked zeroPeerConfig \<and> Network zeroPeerConfig = []
   \<and> fst (check example_env zeroPeerConfig) = None
   \<and> Network (snd (check example_env zeroPeerConfig)) = ''tcp''
   \<and> LocalIP (snd (check example_env zeroPeerConfig)) = ''0.0.0.0''
   \<and> holds_address (localAddr (snd (check example_env zeroPeerConfig)))
   \<and> listenAddr (snd (check example_env zeroPeerConfig)) \<noteq> None
   \<and> fst (check example_env (zeroPeerConfig\<lparr>Network := ''udp''\<rparr>)) = None
   \<and> holds_address (localAddr (snd (check example_env (zeroPeerConfig\<lparr>Network := ''udp''\<rparr>))))
   \<and> fst (check example_env (zeroPeerConfig\<lparr>Network := ''unix''\<rparr>)) = None
   \<and> holds_address (localAddr (snd (check example_env (zeroPeerConfig\<lparr>Network := ''unix''\<rparr>))))
   \<and> fst (check example_env (zeroPeerConfig\<lparr>LocalIP := ''nowhere.invalid''\<rparr>))
      = Some (ResolveError ''lookup failed: nowhere.invalid:0'')
   \<and> localAddr (snd (check example_env (zeroPeerConfig\<lparr>Network := ''bogus''\<rparr>))) = None"
proof -
  have bogus: "Network (zeroPeerConfig\<lparr>Network := ''bogus''\<rparr>) \<notin> accepted_networks"
    "\<not> checked (zeroPeerConfig\<lparr>Network := ''bogus''\<rparr>)"
    "Network (zeroPeerConfig\<lparr>Network := ''bogus''\<rparr>) \<noteq> []"
    "network_in_check (zeroPeerConfig\<lparr>Network := ''bogus''\<rparr>) \<notin> accepted_networks"
    by (simp_all add: accepted_networks_def zeroPeerConfig_def network_in_check_def)
  have res:
    "ResolveTCPAddr example_env ''tcp'' (JoinHostPort ''0.0.0.0'' ''0'')
       = Inr \<lparr>IP = ''0.0.0.0'', Port = 0, Zone = []\<rparr>"
    "ResolveTCPAddr example_env ''tcp'' (JoinHostPort ''nowhere.invalid'' ''0'')
       = Inl (ResolveError ''lookup failed: nowhere.invalid:0'')"
    "ResolveUDPAddr example_env ''udp'' (JoinHostPort ''0.0.0.0'' ''0'')
       = Inr \<lparr>IP = ''0.0.0.0'', Port = 0, Zone = []\<rparr>"
    by (simp_all add: example_env_def JoinHostPort_def)
  have zero: "\<not> checked zeroPeerConfig" "Network zeroPeerConfig = []"
    "network_in_check zeroPeerConfig = ''tcp''" "ip_in_check zeroPeerConfig = ''0.0.0.0''"
    "port_in_check zeroPeerConfig = ''0''"
    by code_simp+
  have udp: "\<not> checked (zeroPeerConfig\<lparr>Network := ''udp''\<rparr>)"
    "network_in_check (zeroPeerConfig\<lparr>Network := ''udp''\<rparr>) = ''udp''"
    "ip_in_check (zeroPeerConfig\<lparr>Network := ''udp''\<rparr>) = ''0.0.0.0''"
    "port_in_check (zeroPeerConfig\<lparr>Network := ''udp''\<rparr>) = ''0''"
    by code_simp+
  have unix: "\<not> checked (zeroPeerConfig\<lparr>Network := ''unix''\<rparr>)"
    "network_in_check (zeroPeerConfig\<lparr>Network := ''unix''\<rparr>) = ''unix''"
    by code_simp+
  have lost: "\<not> checked (zeroPeerConfig\<lparr>LocalIP := ''nowhere.invalid''\<rparr>)"
    "network_in_check (zeroPeerConfig\<lparr>LocalIP := ''nowhere.invalid''\<rparr>) = ''tcp''"
    "ip_in_check (zeroPeerConfig\<lparr>LocalIP := ''nowhere.invalid''\<rparr>) = ''nowhere.invalid''"
    "port_in_check (zeroPeerConfig\<lparr>LocalIP := ''nowhere.invalid''\<rparr>) = ''0''"
    by code_simp+
  have n1: "snd (newAddr example_env (zeroPeerConfig\<lparr>Network := ''unix''\<rparr>) ''0'') = None"
    using newAddr_network_cases [of "zeroPeerConfig\<lparr>Network := ''unix''\<rparr>" example_env "''0''"]
    by (simp add: zeroPeerConfig_def)
  have n2: "snd (newAddr example_env (zeroPeerConfig\<lparr>Network := ''tcp'', LocalIP := ''0.0.0.0''\<rparr>) ''0'')
      = None"
    using res newAddr_network_cases
        [of "zeroPeerConfig\<lparr>Network := ''tcp'', LocalIP := ''0.0.0.0''\<rparr>" example_env "''0''"]
    by (simp add: zeroPeerConfig_def)
  have n3: "snd (newAddr example_env
            (zeroPeerConfig\<lparr>Network := ''tcp'', LocalIP := ''nowhere.invalid''\<rparr>) ''0'')
      = Some (ResolveError ''lookup failed: nowhere.invalid:0'')"
    using res newAddr_network_cases
        [of "zeroPeerConfig\<lparr>Network := ''tcp'', LocalIP := ''nowhere.invalid''\<rparr>" example_env "''0''"]
    by (simp add: zeroPeerConfig_def)
  have n4: "holds_address
       (fst (newAddr example_env (zeroPeerConfig\<lparr>Network := ''quic'', LocalIP := ''0.0.0.0''\<rparr>) ''0''))"
    using res newAddr_network_cases
        [of "zeroPeerConfig\<lparr>Network := ''quic'', LocalIP := ''0.0.0.0''\<rparr>" example_env "''0''"]
    by (simp add: zeroPeerConfig_def)
  have b: "newAddr example_env (zeroPeerConfig\<lparr>Network := ''bogus''\<rparr>) ''0''
      = (None, Some (ErrorsNew invalid_network_msg))
    \<and> fst (check example_env (zeroPeerConfig\<lparr>Network := ''bogus''\<rparr>))
      = Some (ErrorsNew invalid_network_msg)
    \<and> localAddr (snd (check example_env (zeroPeerConfig\<lparr>Network := ''bogus''\<rparr>))) = None"
    using bogus
      newAddr_network_cases [of "zeroPeerConfig\<lparr>Network := ''bogus''\<rparr>" example_env "''0''"]
    by simp
  have z: "fst (check example_env zeroPeerConfig) = None
    \<and> Network (snd (check example_env zeroPeerConfig)) = ''tcp''
    \<and> LocalIP (snd (check example_env zeroPeerConfig)) = ''0.0.0.0''
    \<and> holds_address (localAddr (snd (check example_env zeroPeerConfig)))
    \<and> listenAddr (snd (check example_env zeroPeerConfig)) \<noteq> None"
    using zero res newAddr_network_cases [of zeroPeerConfig example_env "''0''"]
    by simp
  have u: "fst (check example_env (zeroPeerConfig\<lparr>Network := ''udp''\<rparr>)) = None
    \<and> holds_address (localAddr (snd (check example_env (zeroPeerConfig\<lparr>Network := ''udp''\<rparr>))))"
    using udp res
      newAddr_network_cases [of "zeroPeerConfig\<lparr>Network := ''udp''\<rparr>" example_env "''0''"]
    by simp
  have x: "fst (check example_env (zeroPeerConfig\<lparr>Network := ''unix''\<rparr>)) = None
    \<and> holds_address (localAddr (snd (check example_env (zeroPeerConfig\<lparr>Network := ''unix''\<rparr>))))"
    using unix
      newAddr_network_cases [of "zeroPeerConfig\<lparr>Network := ''unix''\<rparr>" example_env "''0''"]
    by simp
  have l: "fst (check example_env (zeroPeerConfig\<lparr>LocalIP := ''nowhere.invalid''\<rparr>))
      = Some (ResolveError ''lookup failed: nowhere.invalid:0'')"
    using lost res
      newAddr_network_cases
        [of "zeroPeerConfig\<lparr>LocalIP := ''nowhere.invalid''\<rparr>" example_env "''0''"]
    by simp
  from b n1 n2 n3 n4 zero(1,2) z u x l show ?thesis
    by blast
qed

section \<open>Properties of the handler \<^verbatim>\<open>Home.Test\<close>\<close>

text \<open>
  C7. When \<^verbatim>\<open>PeekMeta("peer_id")\<close> answers \<^verbatim>\<open>110\<close>, the handler returns a \<^verbatim>\<open>Test\<close> whose
  author is the argument's author followed by \<^verbatim>\<open>->OK\<close> (so \<^verbatim>\<open>andeya->OK\<close> for \<^verbatim>\<open>andeya\<close>)
  and a nil status; with any other answer it panics and returns nothing.
\<close>

theorem Home_Test_reply:
  "(PeekMeta h ''peer_id'' = ''110'' \<longrightarrow>
      Home_Test h arg = Returns (\<lparr>Author = Author arg @ ''->OK''\<rparr>, None))
   \<and> (PeekMeta h ''peer_id'' = ''110'' \<and> Author arg = ''andeya'' \<longrightarrow>
        Home_Test h arg = Returns (\<lparr>Author = ''andeya->OK''\<rparr>, None))
   \<and> (PeekMeta h ''peer_id'' \<noteq> ''110'' \<longrightarrow>
        Home_Test h arg = Panics ''except meta: peer_id=110''
        \<and> (\<forall>r. Home_Test h arg \<noteq> Returns r))"
  by (simp add: Home_Test_def)

text \<open>
  The theorem in scenario S1 (meta \<^verbatim>\<open>peer_id=110\<close>, argument \<^verbatim>\<open>{Author: "andeya"}\<close>), and
  in a context without the meta entry.
\<close>

theorem Home_Test_reply_witness:
  "PeekMeta S1_ctx ''peer_id'' = ''110''
   \<and> Home_Test S1_ctx \<lparr>Author = ''andeya''\<rparr> = Returns (\<lparr>Author = ''andeya->OK''\<rparr>, None)
   \<and> PeekMeta \<lparr>PeekMeta = (\<lambda>k. '''')\<rparr> ''peer_id'' \<noteq> ''110''
   \<and> Home_Test \<lparr>PeekMeta = (\<lambda>k. '''')\<rparr> \<lparr>Author = ''andeya''\<rparr> = Panics ''except meta: peer_id=110''"
proof -
  have a: "PeekMeta S1_ctx ''peer_id'' = ''110''"
    by (simp add: S1_ctx_def)
  have b: "PeekMeta \<lparr>PeekMeta = (\<lambda>k. '''')\<rparr> ''peer_id'' \<noteq> ''110''"
    by simp
  show ?thesis
    using a b Home_Test_reply [of S1_ctx "\<lparr>Author = ''andeya''\<rparr>"]
      Home_Test_reply [of "\<lparr>PeekMeta = (\<lambda>k. '''')\<rparr>" "\<lparr>Author = ''andeya''\<rparr>"]
    by simp
qed

section \<open>Properties of the wire format\<close>

subsection \<open>Integers and blocks\<close>

lemma u32_bytes:
  fixes n :: int
  assumes "0 \<le> n" "n < 4294967296"
  shows "n div 16777216 mod 256 * 16777216 + n div 65536 mod 256 * 65536
           + n div 256 mod 256 * 256 + n mod 256 = n"
proof -
  define a where "a = n div 256"
  define b where "b = a div 256"
  define c where "c = b div 256"
  have n: "n = a * 256 + n mod 256" by (simp add: a_def)
  have a: "a = b * 256 + a mod 256" by (simp add: b_def)
  have b: "b = c * 256 + b mod 256" by (simp add: c_def)
  have b': "n div 65536 = b"
    unfolding a_def b_def using zdiv_zmult2_eq [of 256 n 256] by simp
  have c': "n div 16777216 = c"
    unfolding c_def b' [symmetric] using zdiv_zmult2_eq [of 65536 n 256] by simp
  have "n \<le> 4294967295" using assms by simp
  then have "n div 16777216 \<le> 4294967295 div 16777216"
    by (rule zdiv_mono1) simp
  moreover have "0 \<le> n div 16777216"
    using assms(1) by (simp add: pos_imp_zdiv_nonneg_iff)
  ultimately have c: "c mod 256 = c"
    unfolding c' by simp
  show ?thesis
    unfolding b' c' a_def [symmetric] c using n a b by linarith
qed

lemma get_u32_put_u32:
  assumes "0 \<le> n" "n < 4294967296"
  shows "get_u32 (put_u32 n @ s) = Some (n, s)"
proof -
  have "get_u32 (put_u32 n @ s)
          = Some (n div 16777216 mod 256 * 16777216 + n div 65536 mod 256 * 65536
                    + n div 256 mod 256 * 256 + n mod 256, s)"
    by (simp add: get_u32_def put_u32_def)
  then show ?thesis
    by (simp only: u32_bytes [OF assms])
qed

lemma length_put_u32: "length (put_u32 n) = 4"
  by (simp add: put_u32_def)

lemma char_byte_byte_char: "char_byte (byte_char b) = b"
proof -
  have "unat b < 256" using unsigned_less [of b, where 'a = nat] by simp
  then show ?thesis by (simp add: char_byte_def byte_char_def)
qed

lemma map_char_byte: "map char_byte (map byte_char ids) = ids"
  by (induction ids) (simp_all add: char_byte_byte_char)

lemma unat_char_byte_length: "n \<le> 255 \<Longrightarrow> unat (char_byte (char_of n)) = n"
  by (simp add: char_byte_def unat_of_nat)

lemma byte_mtype_mtype_byte: "byte_mtype (mtype_byte t) = Some t"
  by (cases t) (simp_all add: byte_mtype_def)

lemma take_bytes_append: "take_bytes (length a) (a @ s) = Some (a, s)"
  by (simp add: take_bytes_def)

lemma get_block_put_block:
  assumes "int (length b) < 4294967296"
  shows "get_block (put_block b @ s) = Some (b, s)"
proof -
  have "get_u32 (put_u32 (int (length b)) @ (b @ s)) = Some (int (length b), b @ s)"
    using assms by (intro get_u32_put_u32) simp_all
  then show ?thesis
    by (simp add: get_block_def put_block_def take_bytes_append)
qed

lemma get_u8_byte_char: "get_u8 (byte_char b # s) = Some (b, s)"
  by (simp add: get_u8_def char_byte_byte_char)

subsection \<open>URL encoding\<close>

lemma unhex_hex_digit: "n < 16 \<Longrightarrow> unhex (hex_digit n) = Some n"
  by (auto simp add: unhex_def hex_digit_def Let_def)

lemma percent_reserved: "\<not> unreserved (CHR ''%'')"
  by (simp add: unreserved_def)

lemma char_of_nibbles: "char_of ((of_char c :: nat) div 16 * 16 + of_char c mod 16) = c"
  by simp

lemma urldec_urlenc_char: "urldec (urlenc_char c @ s) = map_option ((#) c) (urldec s)"
proof (cases "unreserved c")
  case True
  then have "c \<noteq> CHR ''%''" using percent_reserved by auto
  with True show ?thesis by (simp add: urlenc_char_def)
next
  case False
  have "(of_char c :: nat) div 16 < 16"
    using nat_of_char_less_256 [of c] by (simp add: less_mult_imp_div_less)
  then show ?thesis
    using False by (simp add: urlenc_char_def unhex_hex_digit char_of_nibbles)
qed

lemma urldec_urlenc_append: "urldec (urlenc s @ t) = map_option ((@) s) (urldec t)"
proof (induction s)
  case Nil
  show ?case by (simp add: urlenc_def option.map_ident)
next
  case (Cons c s)
  have "urlenc (c # s) @ t = urlenc_char c @ (urlenc s @ t)"
    by (simp add: urlenc_def)
  then show ?case
    using Cons by (simp add: urldec_urlenc_char option.map_comp comp_def)
qed

lemma urldec_urlenc: "urldec (urlenc s) = Some s"
  using urldec_urlenc_append [of s "[]"] by simp

lemma of_char_hex_digit:
  "n < 16 \<Longrightarrow> (of_char (hex_digit n) :: nat) = (if n < 10 then 48 + n else 55 + n)"
  by (simp add: hex_digit_def)

lemma hex_digit_plain:
  assumes "n < 16"
  shows "hex_digit n \<noteq> CHR ''&''" and "hex_digit n \<noteq> CHR ''=''"
proof -
  have "(of_char (hex_digit n) :: nat) \<noteq> of_char (CHR ''&'')"
    "(of_char (hex_digit n) :: nat) \<noteq> of_char (CHR ''='')"
    using assms by (simp_all add: of_char_hex_digit)
  then show "hex_digit n \<noteq> CHR ''&''" and "hex_digit n \<noteq> CHR ''=''"
    by auto
qed

lemma urlenc_char_plain:
  "CHR ''&'' \<notin> set (urlenc_char c)" "CHR ''='' \<notin> set (urlenc_char c)"
proof -
  have d: "(of_char c :: nat) div 16 < 16" "(of_char c :: nat) mod 16 < 16"
    using nat_of_char_less_256 [of c] by (simp_all add: less_mult_imp_div_less)
  have u: "\<not> unreserved (CHR ''&'')" "\<not> unreserved (CHR ''='')"
    by (simp_all add: unreserved_def)
  show "CHR ''&'' \<notin> set (urlenc_char c)"
    using hex_digit_plain(1) [OF d(1)] hex_digit_plain(1) [OF d(2)] u(1)
    by (auto simp add: urlenc_char_def)
  show "CHR ''='' \<notin> set (urlenc_char c)"
    using hex_digit_plain(2) [OF d(1)] hex_digit_plain(2) [OF d(2)] u(2)
    by (auto simp add: urlenc_char_def)
qed

lemma urlenc_plain: "CHR ''&'' \<notin> set (urlenc s)" "CHR ''='' \<notin> set (urlenc s)"
  using urlenc_char_plain by (auto simp add: urlenc_def)

subsection \<open>Splitting\<close>

lemma split_on_nonempty: "split_on c s \<noteq> []"
  by (induction s) (auto split: list.splits)

lemma split_on_plain: "c \<notin> set a \<Longrightarrow> split_on c a = [a]"
  by (induction a) auto

lemma split_on_append: "c \<notin> set a \<Longrightarrow> split_on c (a @ c # s) = a # split_on c s"
  by (induction a) auto

subsection \<open>Meta\<close>

lemma put_pair_plain: "CHR ''&'' \<notin> set (put_pair kv)"
  using urlenc_plain(1) by (simp add: put_pair_def)

lemma takeWhile_upto: "c \<notin> set a \<Longrightarrow> takeWhile (\<lambda>x. x \<noteq> c) (a @ c # s) = a"
  by (induction a) auto

lemma dropWhile_upto: "c \<notin> set a \<Longrightarrow> dropWhile (\<lambda>x. x \<noteq> c) (a @ c # s) = c # s"
  by (induction a) auto

lemma get_pair_put_pair: "get_pair (put_pair kv) = Some kv"
  by (simp add: get_pair_def put_pair_def takeWhile_upto dropWhile_upto urlenc_plain
        urldec_urlenc)

lemma meta_query_nonempty: "kvs \<noteq> [] \<Longrightarrow> meta_query kvs \<noteq> []"
  by (induction kvs rule: meta_query.induct) (simp_all add: put_pair_def)

lemma split_meta_query:
  "kvs \<noteq> [] \<Longrightarrow> split_on (CHR ''&'') (meta_query kvs) = map put_pair kvs"
proof (induction kvs rule: meta_query.induct)
  case 1
  then show ?case by simp
next
  case (2 kv)
  show ?case by (simp add: split_on_plain put_pair_plain)
next
  case (3 kv v va)
  then show ?case
    using split_on_append [OF put_pair_plain, of kv "meta_query (v # va)"] by simp
qed

lemma all_some_map: "(\<And>x. h x = Some x) \<Longrightarrow> all_some (map h xs) = Some xs"
  by (induction xs) simp_all

lemma parse_meta_meta_query: "parse_meta (meta_query kvs) = Some kvs"
proof (cases "kvs = []")
  case True
  then show ?thesis by (simp add: parse_meta_def)
next
  case False
  then show ?thesis
    using all_some_map [of "get_pair \<circ> put_pair" kvs]
    by (simp add: parse_meta_def meta_query_nonempty split_meta_query get_pair_put_pair)
qed

subsection \<open>Decimal numbers\<close>

lemma of_char_digit_char: "d < 10 \<Longrightarrow> (of_char (digit_char d) :: nat) = 48 + d"
  by (simp add: digit_char_def)

lemma is_digit_digit_char: "d < 10 \<Longrightarrow> is_digit (digit_char d)"
  by (simp add: is_digit_def of_char_digit_char)

lemma decimal_nonempty: "decimal n \<noteq> []"
  by (subst decimal.simps) simp

lemma decimal_digits: "list_all is_digit (decimal n)"
proof (induction n rule: decimal.induct)
  case (1 n)
  show ?case
  proof (cases "n < 10")
    case True
    then show ?thesis by (subst decimal.simps) (simp add: is_digit_digit_char)
  next
    case False
    then show ?thesis
      using 1 by (subst decimal.simps) (simp add: is_digit_digit_char)
  qed
qed

lemma foldl_decimal: "foldl (\<lambda>a c. a * 10 + (of_char c - 48)) 0 (decimal n) = n"
proof (induction n rule: decimal.induct)
  case (1 n)
  show ?case
  proof (cases "n < 10")
    case True
    then show ?thesis by (subst decimal.simps) (simp add: of_char_digit_char)
  next
    case False
    then show ?thesis
      using 1 by (subst decimal.simps) (simp add: of_char_digit_char)
  qed
qed

lemma parse_nat_decimal: "parse_nat (decimal n) = Some n"
  by (simp add: parse_nat_def decimal_nonempty decimal_digits foldl_decimal)

lemma minus_not_digit: "\<not> is_digit (CHR ''-'')"
  by (simp add: is_digit_def)

lemma digit_plain: "is_digit c \<Longrightarrow> c \<noteq> CHR ''&''"
  by (auto simp add: is_digit_def)

lemma parse_int_Itoa: "parse_int (Itoa i) = Some i"
proof (cases "i < 0")
  case True
  then show ?thesis by (simp add: parse_int_def Itoa_def parse_nat_decimal)
next
  case False
  obtain c ds where d: "decimal (nat i) = c # ds"
    using decimal_nonempty [of "nat i"] by (cases "decimal (nat i)") auto
  have "is_digit c" using decimal_digits [of "nat i"] by (simp add: d)
  then have "c \<noteq> CHR ''-''" using minus_not_digit by auto
  then have "parse_int (decimal (nat i)) = map_option int (parse_nat (decimal (nat i)))"
    by (simp add: parse_int_def d)
  then show ?thesis using False by (simp add: Itoa_def parse_nat_decimal)
qed

lemma Itoa_plain: "CHR ''&'' \<notin> set (Itoa i)"
proof -
  have "CHR ''&'' \<notin> set (decimal n)" for n
    using decimal_digits [of n] digit_plain by (auto simp add: list_all_iff)
  then show ?thesis by (simp add: Itoa_def)
qed

subsection \<open>Status\<close>

lemma strip_prefix_append: "strip_prefix p (p @ s) = Some s"
  by (simp add: strip_prefix_def)

lemma split_status_string:
  "split_on (CHR ''&'') (status_string st)
     = [''?code='' @ Itoa (sint (Code st)), ''msg='' @ urlenc (Msg st), ''cause='' @ urlenc (Cause st)]"
proof -
  have 1: "CHR ''&'' \<notin> set (''?code='' @ Itoa (sint (Code st)))"
    using Itoa_plain by simp
  have 2: "CHR ''&'' \<notin> set (''msg='' @ urlenc (Msg st))"
    using urlenc_plain(1) by simp
  have 3: "CHR ''&'' \<notin> set (''cause='' @ urlenc (Cause st))"
    using urlenc_plain(1) by simp
  have "status_string st
          = (''?code='' @ Itoa (sint (Code st))) @ CHR ''&'' #
            ((''msg='' @ urlenc (Msg st)) @ CHR ''&'' # (''cause='' @ urlenc (Cause st)))"
    by (simp add: status_string_def)
  then show ?thesis
    by (simp only: split_on_append [OF 1] split_on_append [OF 2] split_on_plain [OF 3])
qed

lemma parse_status_status_string: "parse_status (status_string st) = Some st"
proof -
  have r: "- (2 ^ 31) \<le> sint (Code st)" "sint (Code st) < 2 ^ 31"
    using sint_ge [of "Code st"] sint_lt [of "Code st"] by simp_all
  have "parse_status (status_string st)
          = Some \<lparr>Code = word_of_int (sint (Code st)), Msg = Msg st, Cause = Cause st\<rparr>"
    unfolding parse_status_def split_status_string
    using r by (simp add: strip_prefix_append parse_int_Itoa urldec_urlenc
                  del: append.simps)
  then show ?thesis by simp
qed

subsection \<open>Transfer pipe\<close>

lemma undo_filters_append:
  "undo_filters reg (xs @ ys) b =
     (case undo_filters reg xs b of Inl e \<Rightarrow> Inl e | Inr b' \<Rightarrow> undo_filters reg ys b')"
  by (induction xs arbitrary: b) (auto split: option.splits)

lemma pipe_apply_then_reverse:
  assumes "registry_ok reg" and "all_registered reg P"
  shows "\<exists>b'. pipe_apply reg P b = Inr b' \<and> pipe_reverse reg P b' = Inr b"
  using assms(2)
proof (induction P arbitrary: b)
  case Nil
  show ?case by (simp add: pipe_reverse_def)
next
  case (Cons i P)
  from Cons.prems obtain f where f: "reg i = Some f" and rest: "all_registered reg P"
    by (auto simp add: all_registered_def)
  from f assms(1) have inv: "filter_decode f (filter_encode f b) = Some b"
    by (auto simp add: registry_ok_def reversible_def)
  from Cons.IH [OF rest, of "filter_encode f b"]
  obtain b' where fwd: "pipe_apply reg P (filter_encode f b) = Inr b'"
    and bwd: "pipe_reverse reg P b' = Inr (filter_encode f b)"
    by blast
  have "pipe_apply reg (i # P) b = Inr b'"
    using f fwd by simp
  moreover have "pipe_reverse reg (i # P) b' = Inr b"
    using f bwd inv by (simp add: pipe_reverse_def undo_filters_append)
  ultimately show ?case by blast
qed

lemma example_filters_ok: "registry_ok example_filters"
  by (auto simp add: registry_ok_def example_filters_def reversible_def split: if_splits)

text \<open>
  C2. In a registry of reversible filters, for every pipe all of whose filter IDs are
  registered and every block, applying the filters in order succeeds, and reversing them
  in the opposite order on the result gives the block back.
\<close>

theorem pipe_roundtrip:
  assumes "registry_ok reg" and "all_registered reg P"
  shows "\<exists>b'. pipe_apply reg P b = Inr b' \<and> pipe_reverse reg P b' = Inr b"
  using assms by (rule pipe_apply_then_reverse)

text \<open>
  The theorem at the pipe of the reversing and the marking filter. Reversing the pipe in
  the order of application instead does not give the block back.
\<close>

theorem pipe_roundtrip_witness:
  "registry_ok example_filters \<and> all_registered example_filters [103, 120]
   \<and> pipe_apply example_filters [103, 120] ''abc'' = Inr ''xcba''
   \<and> pipe_reverse example_filters [103, 120] ''xcba'' = Inr ''abc''
   \<and> pipe_reverse example_filters [120, 103] ''xcba'' \<noteq> Inr ''abc''"
proof -
  have r: "all_registered example_filters [103, 120]"
    by (simp add: all_registered_def example_filters_def)
  have a: "pipe_apply example_filters [103, 120] ''abc'' = Inr ''xcba''"
    by (simp add: example_filters_def)
  have n: "pipe_reverse example_filters [120, 103] ''xcba'' \<noteq> Inr ''abc''"
    by (simp add: example_filters_def pipe_reverse_def)
  show ?thesis
    using pipe_roundtrip [OF example_filters_ok r, of "''abc''"] r a n example_filters_ok
    by simp
qed

subsection \<open>The frame\<close>

lemma set_body_fields [simp]:
  "seq (set_body m b) = seq m" "mtype (set_body m b) = mtype m"
  "service_method (set_body m b) = service_method m" "status (set_body m b) = status m"
  "meta (set_body m b) = meta m" "body_codec (set_body m b) = body_codec m"
  "xfer_pipe (set_body m b) = xfer_pipe m" "body (set_body m b) = b"
  by (simp_all add: set_body_def)

lemma set_body_set_body: "set_body (set_body m b) (body m) = m"
  by (simp add: set_body_def)

lemma get_status_put:
  assumes "(status m \<noteq> None) = (mtype m = REPLY)"
    and "\<And>st. status m = Some st \<Longrightarrow> int (length (status_string st)) < 4294967296"
  shows "get_status (mtype m)
           ((case status m of
               Some st \<Rightarrow> (if mtype m = REPLY then put_block (status_string st) else [])
             | None \<Rightarrow> []) @ s)
         = Some (status m, s)"
proof (cases "status m")
  case None
  with assms(1) show ?thesis by (simp add: get_status_def)
next
  case (Some st)
  with assms(1) have "mtype m = REPLY" by simp
  then show ?thesis
    using Some assms(2) [OF Some]
    by (simp add: get_status_def get_block_put_block parse_status_status_string)
qed


lemma char_byte_comp: "char_byte \<circ> byte_char = id"
  by (simp add: fun_eq_iff char_byte_byte_char)

lemma parse_frame_emit:
  fixes m :: "string message"
  assumes pipe: "length (xfer_pipe m) \<le> 255"
    and st: "(status m \<noteq> None) = (mtype m = REPLY)"
    and fit: "int (length (frame_payload m)) \<le> uint limit"
  shows "parse_frame limit (put_u32 (int (length (frame_payload m))) @ frame_payload m @ rest)
           = Some (m, rest)"
proof -
  define t6 where "t6 = byte_char (body_codec m) # body m"
  define t5 where "t5 = put_block (meta_query (meta m)) @ t6"
  define sp where "sp = (case status m of
               Some st \<Rightarrow> (if mtype m = REPLY then put_block (status_string st) else [])
             | None \<Rightarrow> [])"
  define t4 where "t4 = sp @ t5"
  define t3 where "t3 = put_block (service_method m) @ t4"
  define t2 where "t2 = byte_char (mtype_byte (mtype m)) # t3"
  define t1 where "t1 = put_u32 (uint (seq m)) @ t2"
  define t0 where "t0 = map byte_char (xfer_pipe m) @ t1"
  have payload: "frame_payload m = char_of (length (xfer_pipe m)) # t0"
    by (simp add: frame_payload_def t0_def t1_def t2_def t3_def t4_def t5_def t6_def sp_def)
  have small: "int (length (frame_payload m)) < 4294967296"
    using fit unsigned_less [of limit, where 'a = int] by simp
  have len: "length (service_method m) \<le> length (frame_payload m)"
    "length (meta_query (meta m)) \<le> length (frame_payload m)"
    "length sp \<le> length (frame_payload m)"
    by (simp_all add: payload t0_def t1_def t2_def t3_def t4_def t5_def put_block_def)
  have s_size: "get_u32 (put_u32 (int (length (frame_payload m))) @ frame_payload m @ rest)
                  = Some (int (length (frame_payload m)), frame_payload m @ rest)"
    using small by (intro get_u32_put_u32) simp_all
  have s_n: "get_u8 (frame_payload m) = Some (char_byte (char_of (length (xfer_pipe m))), t0)"
    by (simp add: payload get_u8_def)
  have s_ids: "take_bytes (unat (char_byte (char_of (length (xfer_pipe m))))) t0
                 = Some (map byte_char (xfer_pipe m), t1)"
    using take_bytes_append [of "map byte_char (xfer_pipe m)" t1]
    by (simp add: unat_char_byte_length [OF pipe] t0_def)
  have s_seq: "get_u32 t1 = Some (uint (seq m), t2)"
    unfolding t1_def using unsigned_less [of "seq m", where 'a = int]
    by (intro get_u32_put_u32) simp_all
  have s_ty: "get_u8 t2 = Some (mtype_byte (mtype m), t3)"
    by (simp add: t2_def get_u8_byte_char)
  have s_sm: "get_block t3 = Some (service_method m, t4)"
    unfolding t3_def using small len(1) by (intro get_block_put_block) simp
  have s_st: "get_status (mtype m) t4 = Some (status m, t5)"
    unfolding t4_def sp_def
  proof (rule get_status_put [OF st])
    fix st' assume "status m = Some st'"
    moreover from this st have "mtype m = REPLY" by simp
    ultimately have "length (status_string st') \<le> length sp"
      by (simp add: sp_def put_block_def)
    then show "int (length (status_string st')) < 4294967296"
      using small len(3) by simp
  qed
  have s_mq: "get_block t5 = Some (meta_query (meta m), t6)"
    unfolding t5_def using small len(2) by (intro get_block_put_block) simp
  have s_cid: "get_u8 t6 = Some (body_codec m, body m)"
    by (simp add: t6_def get_u8_byte_char)
  have lim: "\<not> uint limit < int (length (frame_payload m))"
    using fit by simp
  show ?thesis
    unfolding parse_frame_def
    by (simp add: s_size take_bytes_append s_n s_ids s_seq s_ty s_sm s_st s_mq s_cid lim
          byte_mtype_mtype_byte parse_meta_meta_query char_byte_comp)
qed


lemma decode_after_encode:
  assumes reg: "registry_ok reg" and cod: "codecs_ok codecs"
    and valid: "valid_message limit reg codecs m"
  shows "\<exists>w. encode reg codecs m = Inr w \<and> decode limit reg codecs (w @ rest) = Inr (m, rest)"
proof -
  from valid obtain c where c: "codecs (body_codec m) = Some c"
    by (auto simp add: valid_message_def split: option.splits)
  from valid have st: "(status m \<noteq> None) = (mtype m = REPLY)"
    and pipe: "length (xfer_pipe m) \<le> 255"
    and known: "all_registered reg (xfer_pipe m)"
    by (simp_all add: valid_message_def)
  from pipe_apply_then_reverse [OF reg known, of "marshal c (body m)"]
  obtain b where fwd: "pipe_apply reg (xfer_pipe m) (marshal c (body m)) = Inr b"
    and bwd: "pipe_reverse reg (xfer_pipe m) b = Inr (marshal c (body m))"
    by blast
  define raw where "raw = set_body m b"
  have raw: "mtype raw = mtype m" "status raw = status m" "xfer_pipe raw = xfer_pipe m"
    "body_codec raw = body_codec m" "body raw = b"
    by (simp_all add: raw_def)
  from valid c fwd have fit: "int (length (frame_payload raw)) \<le> uint limit"
    by (simp add: valid_message_def raw_def)
  then have small: "\<not> 4294967296 \<le> int (length (frame_payload raw))"
    using unsigned_less [of limit, where 'a = int] by simp
  define w where "w = put_u32 (int (length (frame_payload raw))) @ frame_payload raw"
  have "emit_frame raw = Inr w"
    using pipe st small by (auto simp add: emit_frame_def raw w_def)
  then have enc: "encode reg codecs m = Inr w"
    using c fwd by (simp add: encode_def raw_def)
  have "parse_frame limit (w @ rest) = Some (raw, rest)"
    unfolding w_def using parse_frame_emit [of raw limit rest] pipe st fit
    by (simp add: raw)
  then have hdr: "unpack_header limit reg codecs (w @ rest) = Inr (raw, rest)"
    using known c by (simp add: unpack_header_def raw)
  from cod c have "unmarshal c (marshal c (body m)) = Some (body m)"
    by (auto simp add: codecs_ok_def codec_ok_def)
  then have "unpack_body reg codecs raw = Inr m"
    using bwd c by (simp add: unpack_body_def raw) (simp add: raw_def set_body_set_body)
  with hdr have "decode limit reg codecs (w @ rest) = Inr (m, rest)"
    by (simp add: decode_def)
  with enc show ?thesis by blast
qed

lemma example_codecs_ok: "codecs_ok example_codecs"
  by (auto simp add: codecs_ok_def example_codecs_def codec_ok_def butlast_append
        split: if_splits)

text \<open>
  C1. With registries of reversible filters and of codecs that keep their contract, every
  valid message encodes, and decoding the encoding (whatever follows it on the input)
  yields the same message, equal in every field: sequence number, type, service method,
  status, meta (a list: duplicates and order count), body codec, transfer pipe and body.
\<close>

theorem decode_encode_roundtrip:
  assumes "registry_ok reg" and "codecs_ok codecs" and "valid_message limit reg codecs m"
  shows "\<exists>w. encode reg codecs m = Inr w \<and> decode limit reg codecs (w @ rest) = Inr (m, rest)"
  using assms by (rule decode_after_encode)

text \<open>
  The theorem at the REPLY of the examples: a status, a duplicate meta key with values
  that need escaping, and a pipe of three filters.
\<close>

theorem decode_encode_roundtrip_witness:
  "registry_ok example_filters \<and> codecs_ok example_codecs
   \<and> valid_message 1000 example_filters example_codecs example_reply
   \<and> decode 1000 example_filters example_codecs
        (projr (encode example_filters example_codecs example_reply) @ ''next'')
       = Inr (example_reply, ''next'')"
proof -
  have v: "valid_message 1000 example_filters example_codecs example_reply"
    by code_simp
  show ?thesis
    using decode_encode_roundtrip [OF example_filters_ok example_codecs_ok v, of "''next''"]
      example_filters_ok example_codecs_ok v
    by auto
qed

section \<open>Properties of the session\<close>

lemma close_when_active:
  "state s = ACTIVE \<Longrightarrow>
     close cause s =
       s\<lparr>state := CLOSED, closed_with := Some cause,
         observed := (\<lambda>q. if inflight s q \<noteq> None then observed s q @ [Failed TRANSPORT_ERROR]
                            else observed s q),
         inflight := (\<lambda>q. None)\<rparr>"
  by (simp add: close_def resolve_all_def cong del: if_weak_cong)

lemma step_when_closed: "state s = CLOSED \<Longrightarrow> step cfg s e = s"
  by (cases e) (simp_all add: activate_def call_def read_loop.simps expire_def close_def)

lemma run_when_closed: "state s = CLOSED \<Longrightarrow> run cfg s evs = s"
  unfolding run_def by (induction evs) (simp_all add: step_when_closed)

lemma close_effect:
  assumes "state s = ACTIVE"
  shows "state (close cause s) = CLOSED"
    and "closed_with (close cause s) = Some cause"
    and "inflight (close cause s) q = None"
    and "inflight s q \<noteq> None \<Longrightarrow> observed (close cause s) q = observed s q @ [Failed TRANSPORT_ERROR]"
    and "inflight s q = None \<Longrightarrow> observed (close cause s) q = observed s q"
  using assms by (simp_all add: close_when_active)

text \<open>
  C4. When an ACTIVE session is closed, for whatever cause and with any number of calls
  in flight, the session is CLOSED and its map of pending calls is empty; the caller of
  every call that was pending observes one more outcome, TRANSPORT\_ERROR; no other caller
  observes anything; and whatever happens to the session afterwards changes nothing, so
  that no call is resolved a second time.
\<close>

theorem close_resolves_pending_once:
  assumes "state s = ACTIVE"
  shows "state (close cause s) = CLOSED
    \<and> (\<forall>q. inflight (close cause s) q = None)
    \<and> (\<forall>q. inflight s q \<noteq> None \<longrightarrow>
           observed (close cause s) q = observed s q @ [Failed TRANSPORT_ERROR])
    \<and> (\<forall>q. inflight s q = None \<longrightarrow> observed (close cause s) q = observed s q)
    \<and> {q. observed (close cause s) q \<noteq> observed s q} = {q. inflight s q \<noteq> None}
    \<and> (\<forall>evs. run cfg (close cause s) evs = close cause s)"
proof -
  have "{q. observed (close cause s) q \<noteq> observed s q} = {q. inflight s q \<noteq> None}"
    using close_effect(4,5) [OF assms, where cause = cause] by auto
  then show ?thesis
    using close_effect [OF assms, where cause = cause] run_when_closed [of "close cause s" cfg]
    by simp
qed


theorem close_resolves_pending_once_witness:
  "state example_session = ACTIVE
   \<and> inflight example_session 0 \<noteq> None \<and> inflight example_session 1 \<noteq> None
   \<and> inflight example_session 2 = None
   \<and> observed (close PEER_CLOSE example_session) 0 = [Failed TRANSPORT_ERROR]
   \<and> observed (close PEER_CLOSE example_session) 1 = [Failed TRANSPORT_ERROR]
   \<and> observed (close PEER_CLOSE example_session) 2 = []
   \<and> run example_config (close PEER_CLOSE example_session)
         [Recv (projr (encode example_filters example_codecs (example_reply\<lparr>seq := 1\<rparr>))),
          Close LOCAL_CLOSE]
       = close PEER_CLOSE example_session"
proof -
  have a: "state example_session = ACTIVE"
    by code_simp
  have p: "inflight example_session 0 \<noteq> None" "inflight example_session 1 \<noteq> None"
    "inflight example_session 2 = None"
    by code_simp+
  have o: "observed example_session 0 = []" "observed example_session 1 = []"
    "observed example_session 2 = []"
    by code_simp+
  show ?thesis
    using a p o close_resolves_pending_once [OF a, of PEER_CLOSE example_config]
    by simp
qed

lemma dispatch_log:
  "dispatch cfg (s\<lparr>discarded := d\<rparr>) raw dec
     = (dispatch cfg s raw dec)
         \<lparr>discarded := (if mtype raw = REPLY \<and> inflight s (seq raw) = None then d @ [raw] else d)\<rparr>"
  by (simp add: dispatch_def resolve_def split: msg_type.splits option.splits)

lemma close_log: "close cause (s\<lparr>discarded := d\<rparr>) = (close cause s)\<lparr>discarded := d\<rparr>"
  by (simp add: close_def resolve_all_def cong del: if_weak_cong)

lemma state_dispatch: "state (dispatch cfg s raw dec) = state s"
  by (simp add: dispatch_def resolve_def split: msg_type.splits option.splits)

lemma read_loop_log:
  "forget_log (read_loop cfg (s\<lparr>discarded := d\<rparr>) input) = forget_log (read_loop cfg s input)"
proof (induction cfg s input arbitrary: d rule: read_loop.induct)
  case (1 cfg s input)
  show ?case
  proof (cases "state s \<noteq> ACTIVE \<or> input = []")
    case True
    then show ?thesis
      by (subst (1 2) read_loop.simps) (auto simp add: forget_log_def)
  next
    case False
    show ?thesis
    proof (cases "unpack_header (read_limit cfg) (filters cfg) (body_codecs cfg) input")
      case (Inl e)
      with False show ?thesis
        by (subst (1 2) read_loop.simps) (simp add: close_log forget_log_def)
    next
      case (Inr r)
      obtain raw rest where r: "r = (raw, rest)" by (cases r)
      from False Inr r "1.IH" [OF False Inr r [symmetric]]
      show ?thesis
        by (subst (1 2) read_loop.simps) (simp add: dispatch_log)
    qed
  qed
qed

lemma step_log: "forget_log (step cfg (s\<lparr>discarded := d\<rparr>) e) = forget_log (step cfg s e)"
proof (cases e)
  case (Recv input)
  then show ?thesis by (simp add: read_loop_log)
qed (auto simp add: forget_log_def activate_def call_def expire_def resolve_def close_log Let_def)

lemma same_but_log: "forget_log s = forget_log t \<Longrightarrow> \<exists>d. t = s\<lparr>discarded := d\<rparr>"
proof -
  assume "forget_log s = forget_log t"
  then have "s\<lparr>discarded := discarded t\<rparr> = t"
    unfolding forget_log_def by (cases s, cases t) simp
  then show ?thesis by metis
qed

lemma run_log:
  "forget_log s = forget_log t \<Longrightarrow> forget_log (run cfg s evs) = forget_log (run cfg t evs)"
proof (induction evs arbitrary: s t)
  case Nil
  then show ?case by (simp add: run_def)
next
  case (Cons e evs)
  from same_but_log [OF Cons.prems] obtain d where "t = s\<lparr>discarded := d\<rparr>" by blast
  then have "forget_log (step cfg s e) = forget_log (step cfg t e)"
    by (simp add: step_log)
  from Cons.IH [OF this] show ?case by (simp add: run_def)
qed


lemma read_loop_frame:
  assumes "state s = ACTIVE"
    and "unpack_header (read_limit cfg) (filters cfg) (body_codecs cfg) input = Inr (raw, rest)"
  shows "read_loop cfg s input
           = read_loop cfg (dispatch cfg s raw (unpack_body (filters cfg) (body_codecs cfg) raw)) rest"
proof -
  from assms(2) have "input \<noteq> []"
    using unpack_header_shorter by fastforce
  with assms show ?thesis
    by (subst read_loop.simps) simp
qed

lemma read_loop_fatal:
  assumes "state s = ACTIVE" and "input \<noteq> []"
    and "unpack_header (read_limit cfg) (filters cfg) (body_codecs cfg) input = Inl e"
  shows "read_loop cfg s input = close (FATAL e) s"
  using assms by (subst read_loop.simps) simp

lemma dispatch_stray:
  assumes "mtype raw = REPLY" and "inflight s (seq raw) = None"
  shows "dispatch cfg s raw dec = s\<lparr>discarded := discarded s @ [raw]\<rparr>"
  using assms by (simp add: dispatch_def)

text \<open>
  C5. A REPLY whose sequence number has no pending call in the map of an ACTIVE session
  is discarded and logged: the session is otherwise unchanged (no caller observes
  anything, the session is still ACTIVE), and after any further events the session is,
  but for the log, the one it would be had the REPLY never arrived; the same holds for
  the frames that follow the REPLY in the input of the read loop. After any REPLY has been
  dispatched its sequence number has no pending call, so a second REPLY with that
  sequence number is such a REPLY.
\<close>

theorem stray_reply_discarded:
  "(state s = ACTIVE \<and> mtype raw = REPLY \<and> inflight s (seq raw) = None \<longrightarrow>
      dispatch cfg s raw dec = s\<lparr>discarded := discarded s @ [raw]\<rparr>
      \<and> observed (dispatch cfg s raw dec) = observed s
      \<and> state (dispatch cfg s raw dec) = ACTIVE
      \<and> (\<forall>evs. forget_log (run cfg (dispatch cfg s raw dec) evs) = forget_log (run cfg s evs)))
   \<and> (state s = ACTIVE \<and> mtype raw = REPLY \<and> inflight s (seq raw) = None
        \<and> unpack_header (read_limit cfg) (filters cfg) (body_codecs cfg) input = Inr (raw, rest) \<longrightarrow>
          forget_log (read_loop cfg s input) = forget_log (read_loop cfg s rest))
   \<and> (mtype raw = REPLY \<longrightarrow> inflight (dispatch cfg s raw dec) (seq raw) = None)"
proof -
  have one: "dispatch cfg s raw dec = s\<lparr>discarded := discarded s @ [raw]\<rparr>
      \<and> observed (dispatch cfg s raw dec) = observed s
      \<and> state (dispatch cfg s raw dec) = ACTIVE
      \<and> (\<forall>evs. forget_log (run cfg (dispatch cfg s raw dec) evs) = forget_log (run cfg s evs))"
    if "state s = ACTIVE" "mtype raw = REPLY" "inflight s (seq raw) = None"
  proof -
    have d: "dispatch cfg s raw dec = s\<lparr>discarded := discarded s @ [raw]\<rparr>"
      using that by (simp add: dispatch_stray)
    have "forget_log (dispatch cfg s raw dec) = forget_log s"
      by (simp add: d forget_log_def)
    then have "forget_log (run cfg (dispatch cfg s raw dec) evs) = forget_log (run cfg s evs)" for evs
      by (rule run_log)
    then show ?thesis using that d by simp
  qed
  have two: "forget_log (read_loop cfg s input) = forget_log (read_loop cfg s rest)"
    if "state s = ACTIVE" "mtype raw = REPLY" "inflight s (seq raw) = None"
      "unpack_header (read_limit cfg) (filters cfg) (body_codecs cfg) input = Inr (raw, rest)"
    using that by (simp add: read_loop_frame dispatch_stray read_loop_log)
  have three: "inflight (dispatch cfg s raw dec) (seq raw) = None" if "mtype raw = REPLY"
    using that by (simp add: dispatch_def resolve_def split: option.splits)
  from one two three show ?thesis by blast
qed

lemma parse_frame_oversize:
  "get_u32 input = Some (n, s0) \<Longrightarrow> uint limit < n \<Longrightarrow> parse_frame limit input = None"
  by (simp add: parse_frame_def)

text \<open>
  C3. When the input of the read loop of an ACTIVE session starts with a size that exceeds
  the read limit, or with a frame whose envelope carries a filter ID or a codec ID that
  is not registered, decoding fails with PROTOCOL\_ERROR and the session is closed with
  that error: it is CLOSED, its map of pending calls is empty, and the caller of every
  call that was pending observes one more outcome, TRANSPORT\_ERROR.
\<close>

theorem protocol_error_closes_session:
  assumes "state s = ACTIVE"
    and "(\<exists>n s0. get_u32 input = Some (n, s0) \<and> uint (read_limit cfg) < n)
         \<or> (\<exists>raw rest. parse_frame (read_limit cfg) input = Some (raw, rest)
              \<and> (\<not> all_registered (filters cfg) (xfer_pipe raw)
                   \<or> body_codecs cfg (body_codec raw) = None))"
  shows "unpack_header (read_limit cfg) (filters cfg) (body_codecs cfg) input = Inl PROTOCOL_ERROR
    \<and> read_loop cfg s input = close (FATAL PROTOCOL_ERROR) s
    \<and> state (read_loop cfg s input) = CLOSED
    \<and> closed_with (read_loop cfg s input) = Some (FATAL PROTOCOL_ERROR)
    \<and> (\<forall>q. inflight (read_loop cfg s input) q = None)
    \<and> (\<forall>q. inflight s q \<noteq> None \<longrightarrow>
           observed (read_loop cfg s input) q = observed s q @ [Failed TRANSPORT_ERROR])
    \<and> (\<forall>q. inflight s q = None \<longrightarrow> observed (read_loop cfg s input) q = observed s q)"
proof -
  from assms(2) have ne: "input \<noteq> []"
    by (auto simp add: get_u32_def dest: parse_frame_shorter)
  from assms(2)
  have hdr: "unpack_header (read_limit cfg) (filters cfg) (body_codecs cfg) input = Inl PROTOCOL_ERROR"
    by (auto simp add: unpack_header_def parse_frame_oversize)
  have "read_loop cfg s input = close (FATAL PROTOCOL_ERROR) s"
    using assms(1) ne hdr by (rule read_loop_fatal)
  then show ?thesis
    using hdr close_effect [OF assms(1), where cause = "FATAL PROTOCOL_ERROR"] by simp
qed

text \<open>
  The theorem at the example session, with two calls in flight, and the three inputs that
  must not be accepted; and, as in scenario S6, at a size of the default read limit plus
  one.
\<close>

theorem protocol_error_closes_session_witness:
  "state example_session = ACTIVE
   \<and> inflight example_session 0 \<noteq> None \<and> inflight example_session 1 \<noteq> None
   \<and> state (read_loop example_config example_session oversize_input) = CLOSED
   \<and> closed_with (read_loop example_config example_session oversize_input)
        = Some (FATAL PROTOCOL_ERROR)
   \<and> observed (read_loop example_config example_session oversize_input) 0
        = [Failed TRANSPORT_ERROR]
   \<and> observed (read_loop example_config example_session oversize_input) 1
        = [Failed TRANSPORT_ERROR]
   \<and> state (read_loop example_config example_session
               (projr (emit_frame unknown_codec_frame))) = CLOSED
   \<and> state (read_loop example_config example_session
               (projr (emit_frame unknown_filter_frame))) = CLOSED
   \<and> observed (read_loop example_config example_session
               (projr (emit_frame unknown_filter_frame))) 1 = [Failed TRANSPORT_ERROR]
   \<and> read_limit default_limit_config = 1073741824
   \<and> state (read_loop default_limit_config example_session (put_u32 1073741825)) = CLOSED
   \<and> observed (read_loop default_limit_config example_session (put_u32 1073741825)) 0
        = [Failed TRANSPORT_ERROR]"
proof -
  have a: "state example_session = ACTIVE"
    by code_simp
  have p: "inflight example_session 0 \<noteq> None" "inflight example_session 1 \<noteq> None"
    by code_simp+
  have o: "observed example_session 0 = []" "observed example_session 1 = []"
    by code_simp+
  have big: "get_u32 oversize_input = Some (1001, ''whatever follows'')"
    "uint (read_limit example_config) < 1001"
    by code_simp+
  have codec: "parse_frame (read_limit example_config) (projr (emit_frame unknown_codec_frame))
                 = Some (unknown_codec_frame, [])"
    "body_codecs example_config (body_codec unknown_codec_frame) = None"
    by code_simp+
  have filter: "parse_frame (read_limit example_config) (projr (emit_frame unknown_filter_frame))
                 = Some (unknown_filter_frame, [])"
    "\<not> all_registered (filters example_config) (xfer_pipe unknown_filter_frame)"
    by code_simp+
  have d1: "(\<exists>n s0. get_u32 oversize_input = Some (n, s0) \<and> uint (read_limit example_config) < n)
         \<or> (\<exists>raw rest. parse_frame (read_limit example_config) oversize_input = Some (raw, rest)
              \<and> (\<not> all_registered (filters example_config) (xfer_pipe raw)
                   \<or> body_codecs example_config (body_codec raw) = None))"
    using big by blast
  have d2: "(\<exists>n s0. get_u32 (projr (emit_frame unknown_codec_frame)) = Some (n, s0)
              \<and> uint (read_limit example_config) < n)
         \<or> (\<exists>raw rest. parse_frame (read_limit example_config)
                (projr (emit_frame unknown_codec_frame)) = Some (raw, rest)
              \<and> (\<not> all_registered (filters example_config) (xfer_pipe raw)
                   \<or> body_codecs example_config (body_codec raw) = None))"
    using codec by blast
  have d3: "(\<exists>n s0. get_u32 (projr (emit_frame unknown_filter_frame)) = Some (n, s0)
              \<and> uint (read_limit example_config) < n)
         \<or> (\<exists>raw rest. parse_frame (read_limit example_config)
                (projr (emit_frame unknown_filter_frame)) = Some (raw, rest)
              \<and> (\<not> all_registered (filters example_config) (xfer_pipe raw)
                   \<or> body_codecs example_config (body_codec raw) = None))"
    using filter by blast
  have s6: "get_u32 (put_u32 1073741825) = Some (1073741825, [])"
    "read_limit default_limit_config = 1073741824"
    by code_simp+
  then have d4: "(\<exists>n s0. get_u32 (put_u32 1073741825) = Some (n, s0)
              \<and> uint (read_limit default_limit_config) < n)
         \<or> (\<exists>raw rest. parse_frame (read_limit default_limit_config)
                (put_u32 1073741825) = Some (raw, rest)
              \<and> (\<not> all_registered (filters default_limit_config) (xfer_pipe raw)
                   \<or> body_codecs default_limit_config (body_codec raw) = None))"
    by simp
  note r4 = protocol_error_closes_session [OF a d4]
  have s4: "state (read_loop default_limit_config example_session (put_u32 1073741825)) = CLOSED"
    using r4 by blast
  have "observed (read_loop default_limit_config example_session (put_u32 1073741825)) 0
          = observed example_session 0 @ [Failed TRANSPORT_ERROR]"
    using r4 p by blast
  then have o4: "observed (read_loop default_limit_config example_session (put_u32 1073741825)) 0
          = [Failed TRANSPORT_ERROR]"
    by (simp add: o)
  note r1 = protocol_error_closes_session [OF a d1]
  note r2 = protocol_error_closes_session [OF a d2]
  note r3 = protocol_error_closes_session [OF a d3]
  have s1: "state (read_loop example_config example_session oversize_input) = CLOSED"
    and c1: "closed_with (read_loop example_config example_session oversize_input)
               = Some (FATAL PROTOCOL_ERROR)"
    using r1 by blast+
  have s2: "state (read_loop example_config example_session
               (projr (emit_frame unknown_codec_frame))) = CLOSED"
    using r2 by blast
  have s3: "state (read_loop example_config example_session
               (projr (emit_frame unknown_filter_frame))) = CLOSED"
    using r3 by blast
  have "observed (read_loop example_config example_session oversize_input) 0
          = observed example_session 0 @ [Failed TRANSPORT_ERROR]"
    "observed (read_loop example_config example_session oversize_input) 1
          = observed example_session 1 @ [Failed TRANSPORT_ERROR]"
    "observed (read_loop example_config example_session
               (projr (emit_frame unknown_filter_frame))) 1
          = observed example_session 1 @ [Failed TRANSPORT_ERROR]"
    using r1 r3 p by blast+
  then have o1: "observed (read_loop example_config example_session oversize_input) 0
          = [Failed TRANSPORT_ERROR]"
    "observed (read_loop example_config example_session oversize_input) 1
          = [Failed TRANSPORT_ERROR]"
    "observed (read_loop example_config example_session
               (projr (emit_frame unknown_filter_frame))) 1
          = [Failed TRANSPORT_ERROR]"
    by (simp_all add: o)
  from a p s1 c1 o1 s2 s3 s6(2) s4 o4 show ?thesis
    by blast
qed

text \<open>
  The theorem at the example session and the example REPLY, whose sequence number 7 has
  no pending call. The input holds the stray REPLY, the REPLY to call 1, and that REPLY a
  second time: call 1 observes one outcome, and the session stays ACTIVE.
\<close>

theorem stray_reply_discarded_witness:
  "state example_session = ACTIVE \<and> mtype stray_reply_raw = REPLY
   \<and> inflight example_session (seq stray_reply_raw) = None
   \<and> unpack_header (read_limit example_config) (filters example_config) (body_codecs example_config)
        (stray_reply_bytes @ reply_1_bytes @ reply_1_bytes)
       = Inr (stray_reply_raw, reply_1_bytes @ reply_1_bytes)
   \<and> dispatch example_config example_session stray_reply_raw (Inr example_reply)
       = example_session\<lparr>discarded := discarded example_session @ [stray_reply_raw]\<rparr>
   \<and> forget_log (run example_config
        (dispatch example_config example_session stray_reply_raw (Inr example_reply))
        [Recv reply_1_bytes])
       = forget_log (run example_config example_session [Recv reply_1_bytes])
   \<and> forget_log (read_loop example_config example_session
        (stray_reply_bytes @ reply_1_bytes @ reply_1_bytes))
       = forget_log (read_loop example_config example_session (reply_1_bytes @ reply_1_bytes))
   \<and> observed (read_loop example_config example_session
        (stray_reply_bytes @ reply_1_bytes @ reply_1_bytes)) 1
       = [Replied (Some \<lparr>Code = 0, Msg = [], Cause = []\<rparr>) ''andeya->OK'']
   \<and> state (read_loop example_config example_session
        (stray_reply_bytes @ reply_1_bytes @ reply_1_bytes)) = ACTIVE"
proof -
  have a: "state example_session = ACTIVE" "mtype stray_reply_raw = REPLY"
    "inflight example_session (seq stray_reply_raw) = None"
    by code_simp+
  have h: "unpack_header (read_limit example_config) (filters example_config) (body_codecs example_config)
        (stray_reply_bytes @ reply_1_bytes @ reply_1_bytes)
       = Inr (stray_reply_raw, reply_1_bytes @ reply_1_bytes)"
    by code_simp
  have c: "observed (read_loop example_config example_session
        (stray_reply_bytes @ reply_1_bytes @ reply_1_bytes)) 1
       = [Replied (Some \<lparr>Code = 0, Msg = [], Cause = []\<rparr>) ''andeya->OK'']"
    "state (read_loop example_config example_session
        (stray_reply_bytes @ reply_1_bytes @ reply_1_bytes)) = ACTIVE"
    by code_simp+
  note t = stray_reply_discarded [of example_session stray_reply_raw example_config
      "Inr example_reply" "stray_reply_bytes @ reply_1_bytes @ reply_1_bytes"
      "reply_1_bytes @ reply_1_bytes"]
  have t1: "dispatch example_config example_session stray_reply_raw (Inr example_reply)
       = example_session\<lparr>discarded := discarded example_session @ [stray_reply_raw]\<rparr>"
    and t2: "forget_log (run example_config
        (dispatch example_config example_session stray_reply_raw (Inr example_reply))
        [Recv reply_1_bytes])
       = forget_log (run example_config example_session [Recv reply_1_bytes])"
    and t3: "forget_log (read_loop example_config example_session
        (stray_reply_bytes @ reply_1_bytes @ reply_1_bytes))
       = forget_log (read_loop example_config example_session (reply_1_bytes @ reply_1_bytes))"
    using t a h by blast+
  from a h t1 t2 t3 c show ?thesis
    by blast
qed

end
